theory Spec2Isabelle
  imports Main
begin

section \<open>Strings of the scraped records\<close>

text \<open>
  A JavaScript string is the list of its UTF-16 code units; every character the
  programs test for lies in the basic plane, so a code unit is a natural number
  below 65536. The Korean literals of the sources are written by code point:
  U+C218 U+C815 U+C77C (the marker word "sujeong-il", updated on),
  U+B4F1 U+B85D U+C77C (the marker word "deungnog-il", posted on),
  U+C678 (the word "oe", and others), U+B9CC U+C6D0 ("man-won", the unit of
  ten thousand won) and U+00B7 (the middle dot).
\<close>

type_synonym ustring = "nat list"

definition asc :: "string \<Rightarrow> ustring" where
  "asc s = map of_char s"

text \<open>The characters that \<open>String.prototype.trim\<close> removes and that \<open>\s\<close> matches.\<close>

definition is_js_space :: "nat \<Rightarrow> bool" where
  "is_js_space c = (c = 9 \<or> c = 10 \<or> c = 11 \<or> c = 12 \<or> c = 13 \<or> c = 32 \<or> c = 160
     \<or> c = 5760 \<or> (8192 \<le> c \<and> c \<le> 8202) \<or> c = 8232 \<or> c = 8233 \<or> c = 8239
     \<or> c = 8287 \<or> c = 12288 \<or> c = 65279)"

definition trim :: "ustring \<Rightarrow> ustring" where
  "trim s = rev (dropWhile is_js_space (rev (dropWhile is_js_space s)))"

text \<open>
  \<open>s.split(/[...]/)\<close> for a character class: the pieces between the separators, in
  order; the empty string gives one empty piece. The branch for an empty list of
  pieces is never taken (\<open>split_on_nonempty\<close>).
\<close>

fun split_on :: "(nat \<Rightarrow> bool) \<Rightarrow> ustring \<Rightarrow> ustring list" where
  "split_on p [] = [[]]"
| "split_on p (c # cs) =
     (if p c then [] # split_on p cs
      else (case split_on p cs of [] \<Rightarrow> [[c]] | t # ts \<Rightarrow> (c # t) # ts))"

text \<open>\<open>/[,\<cdot>]/\<close> of \<open>parseMultiValueField\<close>: the comma and the middle dot.\<close>

definition is_field_sep :: "nat \<Rightarrow> bool" where
  "is_field_sep c = (c = 44 \<or> c = 183)"

definition parseMultiValueField :: "ustring \<Rightarrow> ustring list" where
  "parseMultiValueField fieldValue =
     filter (\<lambda>v. v \<noteq> []) (map trim (split_on is_field_sep fieldValue))"

subsection \<open>The sector field and its embedded date\<close>

definition word_updated :: ustring where
  "word_updated = [49688, 51221, 51068]"

definition word_posted :: ustring where
  "word_posted = [46321, 47197, 51068]"

definition word_etc :: ustring where
  "word_etc = [50808]"

definition is_digit :: "nat \<Rightarrow> bool" where
  "is_digit c = (48 \<le> c \<and> c \<le> 57)"

text \<open>\<open>parseInt(g, 10)\<close> on a group of two decimal digits.\<close>

definition parseInt2 :: "nat \<Rightarrow> nat \<Rightarrow> nat" where
  "parseInt2 a b = 10 * (a - 48) + (b - 48)"

text \<open>
  The match of \<open>/(W1|W2)\s*(\d{2})\/(\d{2})\/(\d{2})/\<close> at the start of a string. Both
  words have three code units; the greedy \<open>\s*\<close> takes every leading space, and giving
  some back could not help, since a digit must follow. The result holds the matched
  text and the three digit groups as numbers.
\<close>

record marker_match =
  matched :: ustring
  group_year :: nat
  group_month :: nat
  group_day :: nat

definition match_marker_at :: "ustring \<Rightarrow> marker_match option" where
  "match_marker_at s =
     (if take 3 s = word_updated \<or> take 3 s = word_posted then
        (let r = drop 3 s; ws = takeWhile is_js_space r in
         (case dropWhile is_js_space r of
            y1 # y2 # s1 # m1 # m2 # s2 # d1 # d2 # rest \<Rightarrow>
              (if is_digit y1 \<and> is_digit y2 \<and> s1 = 47 \<and> is_digit m1 \<and> is_digit m2
                  \<and> s2 = 47 \<and> is_digit d1 \<and> is_digit d2
               then Some \<lparr>matched = take 3 s @ ws @ [y1, y2, s1, m1, m2, s2, d1, d2],
                          group_year = parseInt2 y1 y2, group_month = parseInt2 m1 m2,
                          group_day = parseInt2 d1 d2\<rparr>
               else None)
          | _ \<Rightarrow> None))
      else None)"

text \<open>\<open>sectorStr.match(re)\<close>: the leftmost position where the expression matches.\<close>

fun find_marker :: "ustring \<Rightarrow> marker_match option" where
  "find_marker [] = None"
| "find_marker (c # cs) =
     (case match_marker_at (c # cs) of Some m \<Rightarrow> Some m | None \<Rightarrow> find_marker cs)"

text \<open>\<open>str.replace(pat, '')\<close> with a string pattern: the first occurrence is removed.\<close>

fun remove_first :: "ustring \<Rightarrow> ustring \<Rightarrow> ustring" where
  "remove_first pat [] = []"
| "remove_first pat (c # cs) =
     (if take (length pat) (c # cs) = pat then drop (length pat) (c # cs)
      else c # remove_first pat cs)"

text \<open>
  The date library: \<open>moment(y-m-d, 'YYYY-MM-DD').format('YYYY-MM-DD')\<close>. The library
  is not part of the repository; as it documents, a month outside 1..12 or a day the
  month does not have makes the moment invalid, and an invalid moment formats as the
  text "Invalid date". Years here are 2000..2099.
\<close>

definition is_leap :: "nat \<Rightarrow> bool" where
  "is_leap y = (y mod 4 = 0 \<and> (y mod 100 \<noteq> 0 \<or> y mod 400 = 0))"

definition days_in_month :: "nat \<Rightarrow> nat \<Rightarrow> nat" where
  "days_in_month y m =
     (if m = 2 then (if is_leap y then 29 else 28)
      else if m = 4 \<or> m = 6 \<or> m = 9 \<or> m = 11 then 30 else 31)"

definition valid_date :: "nat \<Rightarrow> nat \<Rightarrow> nat \<Rightarrow> bool" where
  "valid_date y m d = (1 \<le> m \<and> m \<le> 12 \<and> 1 \<le> d \<and> d \<le> days_in_month y m)"

definition digit_char :: "nat \<Rightarrow> nat" where
  "digit_char n = 48 + n mod 10"

definition pad2 :: "nat \<Rightarrow> ustring" where
  "pad2 n = [digit_char (n div 10), digit_char n]"

definition pad4 :: "nat \<Rightarrow> ustring" where
  "pad4 n = [digit_char (n div 1000), digit_char (n div 100), digit_char (n div 10), digit_char n]"

definition iso_date :: "nat \<Rightarrow> nat \<Rightarrow> nat \<Rightarrow> ustring" where
  "iso_date y m d = pad4 y @ [45] @ pad2 m @ [45] @ pad2 d"

definition invalid_date_text :: ustring where
  "invalid_date_text = asc ''Invalid date''"

definition moment_format :: "nat \<Rightarrow> nat \<Rightarrow> nat \<Rightarrow> ustring" where
  "moment_format y m d = (if valid_date y m d then iso_date y m d else invalid_date_text)"

record parsed_sectors =
  sectorsArray :: "ustring list"
  lastModifiedDate :: "ustring option"

text \<open>The last line of \<open>parseSectorsAndModifiedDate\<close>: split on commas only.\<close>

definition sector_tokens :: "ustring \<Rightarrow> ustring list" where
  "sector_tokens s =
     filter (\<lambda>v. v \<noteq> [] \<and> v \<noteq> word_etc) (map trim (split_on (\<lambda>c. c = 44) s))"

definition parseSectorsAndModifiedDate :: "ustring \<Rightarrow> parsed_sectors" where
  "parseSectorsAndModifiedDate sectorStr =
     (case find_marker sectorStr of
        Some m \<Rightarrow>
          \<lparr>sectorsArray = sector_tokens (remove_first (matched m) sectorStr),
           lastModifiedDate =
             Some (moment_format (group_year m + 2000) (group_month m) (group_day m))\<rparr>
      | None \<Rightarrow> \<lparr>sectorsArray = sector_tokens sectorStr, lastModifiedDate = None\<rparr>)"

section \<open>Responses\<close>

text \<open>
  \<open>View/response.js\<close>: \<open>success\<close> answers with status 200 or 201, \<open>error\<close> with
  the status code it is given. The message texts of the handlers are Korean; each is
  a constructor here, named by its meaning. The error kinds of the specification are
  the status codes: 400 Validation, 401 Unauthenticated, 403 Forbidden, 404 NotFound,
  409 Conflict, 500 Internal/Storage.
\<close>

datatype message =
    MsgInvalidPage
  | MsgNoMatchingPostings
  | MsgNoBookmarks
  | MsgNoPostingsLoaded
  | MsgListOk
  | MsgListFailed
  | MsgBookmarkListFailed
  | MsgPayListFailed
  | MsgNoFieldsToUpdate
  | MsgUpdateFailed
  | MsgUpdated
  | MsgInvalidPostingId
  | MsgPostingToDeleteMissing
  | MsgNotAllowedToDelete
  | MsgDeleted
  | MsgPostingIdRequired
  | MsgBookmarkRemoved
  | MsgBookmarkAdded
  | MsgAllFieldsRequired
  | MsgInvalidEmailFormat
  | MsgInvalidName
  | MsgInvalidPassword
  | MsgEmailTaken
  | MsgRegistered

datatype 'a response = Success nat message 'a | Failure nat message

datatype error_kind = Validation | Unauthenticated | Forbidden | NotFound | Conflict | Internal

definition kind_of_status :: "nat \<Rightarrow> error_kind" where
  "kind_of_status code =
     (if code = 400 then Validation else if code = 401 then Unauthenticated
      else if code = 403 then Forbidden else if code = 404 then NotFound
      else if code = 409 then Conflict else Internal)"

fun failure_kind :: "'a response \<Rightarrow> error_kind option" where
  "failure_kind (Failure code m) = Some (kind_of_status code)"
| "failure_kind (Success code m d) = None"

record pagination =
  currentPage :: int
  totalPages :: nat
  pageSize :: nat
  totalItems :: nat

record 'r page_data =
  page_rows :: "'r list"
  page_info :: pagination

section \<open>Page numbers\<close>

text \<open>
  \<open>parseInt(text)\<close> without a radix: leading white space is skipped, a sign is read,
  a prefix \<open>0x\<close> or \<open>0X\<close> selects base 16, and the longest run of digits is the value;
  no digit gives \<open>NaN\<close>, here \<open>None\<close>. Values are exact integers (the double of the
  program agrees with them below 2 to the 53).
\<close>

definition is_hex_digit :: "nat \<Rightarrow> bool" where
  "is_hex_digit c = (is_digit c \<or> (65 \<le> c \<and> c \<le> 70) \<or> (97 \<le> c \<and> c \<le> 102))"

definition hex_digit_val :: "nat \<Rightarrow> nat" where
  "hex_digit_val c = (if is_digit c then c - 48 else if c \<le> 70 then c - 55 else c - 87)"

definition digits_val :: "nat \<Rightarrow> (nat \<Rightarrow> nat) \<Rightarrow> ustring \<Rightarrow> nat" where
  "digits_val base dv ds = foldl (\<lambda>acc c. base * acc + dv c) 0 ds"

definition js_parseInt :: "ustring \<Rightarrow> int option" where
  "js_parseInt s =
     (let t = dropWhile is_js_space s;
          neg = (case t of c # r \<Rightarrow> c = 45 | [] \<Rightarrow> False);
          u = (case t of c # r \<Rightarrow> if c = 45 \<or> c = 43 then r else t | [] \<Rightarrow> []);
          hex = (case u of a # b # r \<Rightarrow> a = 48 \<and> (b = 120 \<or> b = 88) | _ \<Rightarrow> False);
          ds = (if hex then takeWhile is_hex_digit (drop 2 u) else takeWhile is_digit u);
          v = (if hex then digits_val 16 hex_digit_val ds else digits_val 10 (\<lambda>c. c - 48) ds)
      in if ds = [] then None else Some (if neg then - int v else int v))"

text \<open>
  \<open>parseInt(req.query.page) || 1\<close>: an absent parameter, a text that is no number and
  the number 0 all give 1.
\<close>

definition query_page :: "ustring option \<Rightarrow> int" where
  "query_page q =
     (case q of None \<Rightarrow> 1
      | Some t \<Rightarrow> (case js_parseInt t of None \<Rightarrow> 1 | Some n \<Rightarrow> if n = 0 then 1 else n))"

definition PAGE_SIZE :: nat where
  "PAGE_SIZE = 20"

text \<open>\<open>Math.ceil(totalCount / PAGE_SIZE)\<close>.\<close>

definition ceil_div :: "nat \<Rightarrow> nat \<Rightarrow> nat" where
  "ceil_div n k = (n + k - 1) div k"

text \<open>
  \<open>LIMIT PAGE_SIZE OFFSET (page - 1) * PAGE_SIZE\<close> on an ordered result; the handlers
  reach the query with \<open>page \<ge> 1\<close> only.
\<close>

definition page_slice :: "int \<Rightarrow> 'r list \<Rightarrow> 'r list" where
  "page_slice page xs = take PAGE_SIZE (drop (nat (page - 1) * PAGE_SIZE) xs)"

definition make_pagination :: "int \<Rightarrow> nat \<Rightarrow> pagination" where
  "make_pagination page cnt =
     \<lparr>currentPage = page, totalPages = ceil_div cnt PAGE_SIZE, pageSize = PAGE_SIZE,
      totalItems = cnt\<rparr>"

section \<open>The relational store\<close>

text \<open>
  The six dimension tables hold an auto-increment id and a name or label; the four
  junction tables hold pairs (posting id, dimension id). A table is the list of its
  rows in insertion order.
\<close>

datatype dim = Company | Education | Experience | Location | EmploymentType | Sector

datatype junction = JExperience | JLocation | JEmploymentType | JSector

record dim_table =
  dim_rows :: "(nat \<times> ustring) list"
  dim_next :: nat

record posting =
  job_posting_id :: nat
  user_id :: "nat option"
  company_id :: nat
  title :: ustring
  link :: ustring
  link_hash :: ustring
  education_id :: "nat option"
  deadline :: ustring
  last_modified_date :: "ustring option"
  salary :: ustring
  employment_type_id :: "nat option"
  views :: nat

record bookmark =
  bm_user_id :: nat
  bm_job_posting_id :: nat
  bm_created_at :: nat

record user_row =
  u_email :: ustring
  u_password :: ustring
  u_name :: ustring

record db =
  dims :: "dim \<Rightarrow> dim_table"
  postings :: "posting list"
  next_posting_id :: nat
  juncs :: "junction \<Rightarrow> (nat \<times> nat) list"
  bookmarks :: "bookmark list"
  users :: "user_row list"

definition empty_db :: db where
  "empty_db =
     \<lparr>dims = (\<lambda>d. \<lparr>dim_rows = [], dim_next = 1\<rparr>), postings = [], next_posting_id = 1,
      juncs = (\<lambda>j. []), bookmarks = [], users = []\<rparr>"

text \<open>\<open>JOIN d ON j.x_id = d.x_id\<close>: the name of the dimension row with an id, if any.\<close>

definition dim_name :: "dim \<Rightarrow> nat \<Rightarrow> db \<Rightarrow> ustring option" where
  "dim_name d i s = map_option snd (find (\<lambda>r. fst r = i) (dim_rows (dims s d)))"

subsection \<open>Statements of the batch ingestion\<close>

text \<open>
  Modelled from the spec: the table declarations (\<open>createTables.js\<close>) are not under
  \<open>src/\<close>. By the persisted schema of the specification the name or label column of
  every dimension table is unique, so \<open>INSERT IGNORE INTO d (name) VALUES (?)\<close> adds a
  row with the next id when no row has the name, and does nothing otherwise.
\<close>

definition dim_insert :: "ustring \<Rightarrow> dim_table \<Rightarrow> dim_table" where
  "dim_insert v t =
     (if v \<in> snd ` set (dim_rows t) then t
      else \<lparr>dim_rows = dim_rows t @ [(dim_next t, v)], dim_next = dim_next t + 1\<rparr>)"

definition insert_ignore_dim :: "dim \<Rightarrow> ustring \<Rightarrow> db \<Rightarrow> db" where
  "insert_ignore_dim d v s = s\<lparr>dims := (dims s)(d := dim_insert v (dims s d))\<rparr>"

text \<open>\<open>SELECT id FROM d WHERE name = ?\<close> followed by \<open>rows[0]?.id\<close>.\<close>

definition select_dim_id :: "dim \<Rightarrow> ustring \<Rightarrow> db \<Rightarrow> nat option" where
  "select_dim_id d v s =
     (case filter (\<lambda>r. snd r = v) (dim_rows (dims s d)) of
        [] \<Rightarrow> None
      | r # rs \<Rightarrow> Some (fst r))"

text \<open>
  Modelled from the spec: the declaration of \<open>job_postings\<close> is not under \<open>src/\<close>. By
  the specification the link hash is unique, the owner of a scraped posting is null,
  and a new posting has no views; the insert names neither the owner, the employment
  type nor the views, which take the defaults. The posting passed in carries the
  values of the statement; its id is assigned here.
\<close>

definition insert_ignore_posting :: "posting \<Rightarrow> db \<Rightarrow> db" where
  "insert_ignore_posting p s =
     (if link_hash p \<in> link_hash ` set (postings s) then s
      else s\<lparr>postings := postings s @ [p\<lparr>job_posting_id := next_posting_id s\<rparr>],
             next_posting_id := next_posting_id s + 1\<rparr>)"

text \<open>\<open>SELECT job_posting_id FROM job_postings WHERE link_hash = ?\<close>, first row.\<close>

definition select_posting_id :: "ustring \<Rightarrow> db \<Rightarrow> nat option" where
  "select_posting_id h s =
     (case filter (\<lambda>p. link_hash p = h) (postings s) of
        [] \<Rightarrow> None
      | p # ps \<Rightarrow> Some (job_posting_id p))"

text \<open>
  Modelled from the spec: the junction tables' declarations are not under \<open>src/\<close>. By
  the specification a duplicate junction insert is a no-op: the pair is the key.
\<close>

definition insert_ignore_junction :: "junction \<Rightarrow> nat \<Rightarrow> nat \<Rightarrow> db \<Rightarrow> db" where
  "insert_ignore_junction j pid i s =
     (if (pid, i) \<in> set (juncs s j) then s
      else s\<lparr>juncs := (juncs s)(j := juncs s j @ [(pid, i)])\<rparr>)"

text \<open>\<open>UPDATE job_postings SET employment_type_id = ? WHERE job_posting_id = ?\<close>.\<close>

definition update_employment_type :: "nat \<Rightarrow> nat \<Rightarrow> db \<Rightarrow> db" where
  "update_employment_type i pid s =
     s\<lparr>postings := map (\<lambda>p. if job_posting_id p = pid then p\<lparr>employment_type_id := Some i\<rparr> else p)
                       (postings s)\<rparr>"

subsection \<open>insertData\<close>

text \<open>
  One scraped record. Its fields are the texts under the Korean keys of the crawler:
  company name, title, link, education, deadline, job sectors, salary, experience,
  location and employment type.
\<close>

record raw_record =
  r_company :: ustring
  r_title :: ustring
  r_link :: ustring
  r_education :: ustring
  r_deadline :: ustring
  r_sectors :: ustring
  r_salary :: ustring
  r_experience :: ustring
  r_location :: ustring
  r_employment :: ustring

datatype ingest_error = CompanyIdLookupFailed | PostingIdLookupFailed

text \<open>
  The three loops over the tokens of a multi-value field: get or create the
  dimension row, and link it to the posting when the id read back is truthy.
\<close>

fun link_values :: "dim \<Rightarrow> junction \<Rightarrow> nat \<Rightarrow> ustring list \<Rightarrow> db \<Rightarrow> db" where
  "link_values d j pid [] s = s"
| "link_values d j pid (v # vs) s =
     (let s1 = insert_ignore_dim d v s in
      link_values d j pid vs
        (case select_dim_id d v s1 of
           Some i \<Rightarrow> if i \<noteq> 0 then insert_ignore_junction j pid i s1 else s1
         | None \<Rightarrow> s1))"

text \<open>
  The block for the employment type: when the field is non-empty, get or create its
  row, point the posting at it and link the two.
\<close>

definition link_employment :: "nat \<Rightarrow> ustring \<Rightarrow> db \<Rightarrow> db" where
  "link_employment pid v s =
     (if v \<noteq> [] then
        (let t = insert_ignore_dim EmploymentType v s
         in case select_dim_id EmploymentType v t of
              Some i \<Rightarrow>
                if i \<noteq> 0
                then insert_ignore_junction JEmploymentType pid i (update_employment_type i pid t)
                else t
            | None \<Rightarrow> t)
      else s)"

text \<open>
  What follows the lookup of the posting id: experiences, locations, employment type
  and sectors, in this order.
\<close>

definition link_associations :: "nat \<Rightarrow> raw_record \<Rightarrow> ustring list \<Rightarrow> db \<Rightarrow> db" where
  "link_associations pid data sectors s =
     (let s4 = link_values Experience JExperience pid (parseMultiValueField (r_experience data)) s;
          s5 = link_values Location JLocation pid (parseMultiValueField (r_location data)) s4;
          s6 = link_employment pid (r_employment data) s5
      in link_values Sector JSector pid sectors s6)"

text \<open>The row of the \<open>INSERT IGNORE INTO job_postings\<close>, before its id is assigned.\<close>

definition new_posting ::
  "(ustring \<Rightarrow> ustring) \<Rightarrow> raw_record \<Rightarrow> nat \<Rightarrow> nat option \<Rightarrow> posting" where
  "new_posting sha256 data companyId educationId =
     \<lparr>job_posting_id = 0, user_id = None, company_id = companyId,
      title = r_title data, link = r_link data, link_hash = sha256 (r_link data),
      education_id = educationId, deadline = r_deadline data,
      last_modified_date = lastModifiedDate (parseSectorsAndModifiedDate (r_sectors data)),
      salary = r_salary data, employment_type_id = None, views = 0\<rparr>"

text \<open>
  The body of the loop of \<open>insertData\<close>. An exception is caught per record and only
  logged, so the statements executed before it stay in effect: the result is the
  error, if any, and the store reached. \<open>sha256\<close> is the hex digest of the link.
\<close>

definition insert_record ::
  "(ustring \<Rightarrow> ustring) \<Rightarrow> raw_record \<Rightarrow> db \<Rightarrow> ingest_error option \<times> db" where
  "insert_record sha256 data s =
     (let s1 = insert_ignore_dim Company (r_company data) s in
      case select_dim_id Company (r_company data) s1 of
        None \<Rightarrow> (Some CompanyIdLookupFailed, s1)
      | Some companyId \<Rightarrow>
          if companyId = 0 then (Some CompanyIdLookupFailed, s1)
          else
            (let s2 = (if r_education data \<noteq> []
                       then insert_ignore_dim Education (r_education data) s1 else s1);
                 educationId = (case select_dim_id Education (r_education data) s2 of
                                  Some i \<Rightarrow> if i = 0 then None else Some i
                                | None \<Rightarrow> None);
                 s3 = insert_ignore_posting (new_posting sha256 data companyId educationId) s2
             in case select_posting_id (sha256 (r_link data)) s3 of
                  None \<Rightarrow> (Some PostingIdLookupFailed, s3)
                | Some jobPostingId \<Rightarrow>
                    if jobPostingId = 0 then (Some PostingIdLookupFailed, s3)
                    else (None, link_associations jobPostingId data
                                  (sectorsArray (parseSectorsAndModifiedDate (r_sectors data))) s3)))"

fun insertData :: "(ustring \<Rightarrow> ustring) \<Rightarrow> raw_record list \<Rightarrow> db \<Rightarrow> db" where
  "insertData sha256 [] s = s"
| "insertData sha256 (data # rest) s = insertData sha256 rest (snd (insert_record sha256 data s))"

text \<open>The effect of the employment-type block on the posting table.\<close>

definition set_employment :: "nat \<Rightarrow> nat option \<Rightarrow> posting \<Rightarrow> posting" where
  "set_employment pid e p = (if job_posting_id p = pid then p\<lparr>employment_type_id := e\<rparr> else p)"

text \<open>
  The row a record leaves for its link hash: when the hash is new, the new row with
  the employment type of the record; when one row has the hash, that row with its
  employment type replaced if the record names one. \<open>record_employment\<close> is the
  reference the employment-type block writes.
\<close>

definition record_employment ::
  "(ustring \<Rightarrow> ustring) \<Rightarrow> raw_record \<Rightarrow> db \<Rightarrow> posting \<Rightarrow> posting" where
  "record_employment sha256 data s p =
     (if r_employment data = [] then p
      else p\<lparr>employment_type_id :=
               select_dim_id EmploymentType (r_employment data) (snd (insert_record sha256 data s))\<rparr>)"

text \<open>Two records with the same link and different titles and employment types.\<close>

definition record_a :: raw_record where
  "record_a =
     \<lparr>r_company = asc ''Acme'', r_title = asc ''Developer'', r_link = asc ''http://x/1'',
      r_education = [], r_deadline = asc ''2025-01-31'', r_sectors = asc ''IT'',
      r_salary = asc ''3,000'', r_experience = [], r_location = asc ''Seoul'',
      r_employment = asc ''regular''\<rparr>"

definition record_b :: raw_record where
  "record_b = record_a\<lparr>r_title := asc ''Operator'', r_employment := asc ''contract''\<rparr>"

subsection \<open>Get-or-create of a dimension row\<close>

text \<open>
  The pair of statements the batch path repeats for every dimension:
  \<open>INSERT IGNORE\<close>, then the \<open>SELECT\<close> of the id.
\<close>

definition get_or_create :: "dim \<Rightarrow> ustring \<Rightarrow> db \<Rightarrow> nat option \<times> db" where
  "get_or_create d v s =
     (let s1 = insert_ignore_dim d v s in (select_dim_id d v s1, s1))"

text \<open>
  The statement of the creation and update endpoints,
  \<open>INSERT INTO d (name) VALUES (?) ON DUPLICATE KEY UPDATE id = LAST_INSERT_ID(id)\<close>,
  with the value \<open>LAST_INSERT_ID()\<close> has afterwards: the id of the row that has the
  name, old or new.
\<close>

definition upsert_dim :: "dim \<Rightarrow> ustring \<Rightarrow> db \<Rightarrow> nat \<times> db" where
  "upsert_dim d v s =
     (case select_dim_id d v s of
        Some i \<Rightarrow> (i, s)
      | None \<Rightarrow> (dim_next (dims s d), insert_ignore_dim d v s))"

text \<open>The rows of a dimension table that hold a label.\<close>

definition label_rows :: "dim \<Rightarrow> ustring \<Rightarrow> db \<Rightarrow> (nat \<times> ustring) list" where
  "label_rows d v s = filter (\<lambda>r. snd r = v) (dim_rows (dims s d))"

text \<open>
  Auto-increment ids start at 1: no row of the table has the id 0, and the next id
  is not 0.
\<close>

definition ids_positive :: "dim \<Rightarrow> db \<Rightarrow> bool" where
  "ids_positive d s =
     (dim_next (dims s d) \<noteq> 0 \<and> list_all (\<lambda>r. fst r \<noteq> 0) (dim_rows (dims s d)))"

section \<open>Updating and deleting a posting\<close>

text \<open>
  \<open>router.put('/:id')\<close> builds a list of statements and hands it to
  \<open>executeTransaction\<close>. Each constructor is one statement text of the handler, with
  its parameters; \<open>LastId\<close> in a name stands for \<open>LAST_INSERT_ID()\<close>.
\<close>

datatype stmt =
    SelectPostingById nat
  | SelectPostingByIdAndUser nat nat
  | UpsertDim dim ustring
  | SetCompanyLastId nat
  | SetTitle ustring nat
  | SetLink ustring nat
  | SetEducationLastId nat
  | SetDeadline ustring nat
  | SetEmploymentTypeLastId nat
  | SetSalary ustring nat
  | DeleteJunctions junction nat
  | InsertJunctionLastId junction nat
  | TouchLastModified nat

record update_body =
  b_companyName :: "ustring option"
  b_title :: "ustring option"
  b_link :: "ustring option"
  b_educationLevel :: "ustring option"
  b_deadline :: "ustring option"
  b_locationNames :: "ustring list option"
  b_sectorNames :: "ustring list option"
  b_employmentType :: "ustring option"
  b_salary :: "ustring option"

text \<open>
  Truthiness of a body field: an absent field and the empty string are falsy; an
  array, also the empty one, is truthy.
\<close>

definition truthy :: "ustring option \<Rightarrow> bool" where
  "truthy v = (case v of None \<Rightarrow> False | Some t \<Rightarrow> t \<noteq> [])"

definition field_stmts :: "ustring option \<Rightarrow> (ustring \<Rightarrow> stmt list) \<Rightarrow> stmt list" where
  "field_stmts v f = (case v of None \<Rightarrow> [] | Some t \<Rightarrow> if t = [] then [] else f t)"

definition names_stmts :: "dim \<Rightarrow> junction \<Rightarrow> nat \<Rightarrow> ustring list option \<Rightarrow> stmt list" where
  "names_stmts d j pid v =
     (case v of
        None \<Rightarrow> []
      | Some names \<Rightarrow>
          DeleteJunctions j pid # concat (map (\<lambda>n. [UpsertDim d n, InsertJunctionLastId j pid]) names))"

definition update_queries :: "nat \<Rightarrow> nat \<Rightarrow> update_body \<Rightarrow> stmt list" where
  "update_queries pid userId body =
     [SelectPostingById pid, SelectPostingByIdAndUser pid userId]
     @ field_stmts (b_companyName body) (\<lambda>t. [UpsertDim Company t, SetCompanyLastId pid])
     @ field_stmts (b_title body) (\<lambda>t. [SetTitle t pid])
     @ field_stmts (b_link body) (\<lambda>t. [SetLink t pid])
     @ field_stmts (b_educationLevel body) (\<lambda>t. [UpsertDim Education t, SetEducationLastId pid])
     @ field_stmts (b_deadline body) (\<lambda>t. [SetDeadline t pid])
     @ field_stmts (b_employmentType body)
         (\<lambda>t. [UpsertDim EmploymentType t, SetEmploymentTypeLastId pid])
     @ field_stmts (b_salary body) (\<lambda>t. [SetSalary t pid])
     @ names_stmts Location JLocation pid (b_locationNames body)
     @ names_stmts Sector JSector pid (b_sectorNames body)
     @ [TouchLastModified pid]"

text \<open>
  The row the handler reads back after the transaction. The \<open>SELECT\<close> aggregates
  without \<open>GROUP BY\<close>, so it gives one row whatever the store holds. It joins the
  posting with its company and with its education (inner joins), and from there, by
  left joins, with its locations, its sectors and its employment type. When the
  posting is missing, or has no company row or no education row, nothing is joined and
  every column of the row is \<open>NULL\<close>. The two \<open>GROUP_CONCAT(DISTINCT ...)\<close> columns
  are given by the set of the names they concatenate, empty for \<open>NULL\<close>.
\<close>

record updated_job =
  uj_title :: "ustring option"
  uj_company_name :: "ustring option"
  uj_salary :: "ustring option"
  uj_deadline :: "ustring option"
  uj_education_level :: "ustring option"
  uj_locations :: "ustring set"
  uj_sectors :: "ustring set"
  uj_employment_type_name :: "ustring option"
  uj_last_modified_date :: "ustring option"

definition null_job :: updated_job where
  "null_job =
     \<lparr>uj_title = None, uj_company_name = None, uj_salary = None, uj_deadline = None,
      uj_education_level = None, uj_locations = {}, uj_sectors = {},
      uj_employment_type_name = None, uj_last_modified_date = None\<rparr>"

definition linked_names :: "dim \<Rightarrow> junction \<Rightarrow> nat \<Rightarrow> db \<Rightarrow> ustring set" where
  "linked_names d j pid s =
     set (concat (map (\<lambda>r. case dim_name d (snd r) s of None \<Rightarrow> [] | Some n \<Rightarrow> [n])
                    (filter (\<lambda>r. fst r = pid) (juncs s j))))"

definition read_back :: "nat \<Rightarrow> db \<Rightarrow> updated_job" where
  "read_back pid s =
     (case find (\<lambda>p. job_posting_id p = pid) (postings s) of
        None \<Rightarrow> null_job
      | Some p \<Rightarrow>
          (case dim_name Company (company_id p) s of
             None \<Rightarrow> null_job
           | Some cname \<Rightarrow>
               (case education_id p of
                  None \<Rightarrow> null_job
                | Some e \<Rightarrow>
                    (case dim_name Education e s of
                       None \<Rightarrow> null_job
                     | Some level \<Rightarrow>
                         \<lparr>uj_title = Some (title p), uj_company_name = Some cname,
                          uj_salary = Some (salary p), uj_deadline = Some (deadline p),
                          uj_education_level = Some level,
                          uj_locations = linked_names Location JLocation pid s,
                          uj_sectors = linked_names Sector JSector pid s,
                          uj_employment_type_name =
                            (case employment_type_id p of
                               None \<Rightarrow> None
                             | Some et \<Rightarrow> dim_name EmploymentType et s),
                          uj_last_modified_date = last_modified_date p\<rparr>))))"

text \<open>
  The handler. \<open>executeTransaction\<close> (\<open>Model/executeDB.js\<close>) is not under \<open>src/\<close>, so
  it is the parameter \<open>exec\<close>: from the statements and the store it gives whether it
  returned (or threw) and the store it leaves. The handler does not look at the rows
  the statements return. The path parameter is the posting id the database reads from
  it; the answer carries the row read back from the store the transaction left.
\<close>

definition put_posting ::
  "(stmt list \<Rightarrow> db \<Rightarrow> bool \<times> db) \<Rightarrow> nat \<Rightarrow> nat \<Rightarrow> update_body \<Rightarrow> db
     \<Rightarrow> updated_job response \<times> db" where
  "put_posting exec pid userId body s =
     (if \<not> truthy (b_companyName body) \<and> \<not> truthy (b_title body) \<and> \<not> truthy (b_link body)
         \<and> \<not> truthy (b_educationLevel body) \<and> \<not> truthy (b_deadline body)
         \<and> b_locationNames body = None \<and> b_sectorNames body = None
         \<and> \<not> truthy (b_employmentType body) \<and> \<not> truthy (b_salary body)
      then (Failure 400 MsgNoFieldsToUpdate, s)
      else
        (case exec (update_queries pid userId body) s of
           (True, s1) \<Rightarrow> (Success 200 MsgUpdated (read_back pid s1), s1)
         | (False, s1) \<Rightarrow> (Failure 500 MsgUpdateFailed, s1)))"

subsection \<open>A sequential transaction\<close>

text \<open>
  The effect of one statement on the store and on \<open>LAST_INSERT_ID()\<close>; \<open>None\<close> when
  the statement raises. The two \<open>SELECT\<close>s change nothing. The plain \<open>INSERT\<close> into a
  junction table raises on a pair that is already there (the pair is the key).
\<close>

definition map_posting :: "nat \<Rightarrow> (posting \<Rightarrow> posting) \<Rightarrow> db \<Rightarrow> db" where
  "map_posting pid f s =
     s\<lparr>postings := map (\<lambda>p. if job_posting_id p = pid then f p else p) (postings s)\<rparr>"

fun exec_stmt :: "ustring \<Rightarrow> stmt \<Rightarrow> db \<times> nat \<Rightarrow> (db \<times> nat) option" where
  "exec_stmt now (SelectPostingById pid) (s, l) = Some (s, l)"
| "exec_stmt now (SelectPostingByIdAndUser pid u) (s, l) = Some (s, l)"
| "exec_stmt now (UpsertDim d v) (s, l) = Some (snd (upsert_dim d v s), fst (upsert_dim d v s))"
| "exec_stmt now (SetCompanyLastId pid) (s, l) = Some (map_posting pid (\<lambda>p. p\<lparr>company_id := l\<rparr>) s, l)"
| "exec_stmt now (SetTitle t pid) (s, l) = Some (map_posting pid (\<lambda>p. p\<lparr>title := t\<rparr>) s, l)"
| "exec_stmt now (SetLink t pid) (s, l) = Some (map_posting pid (\<lambda>p. p\<lparr>link := t\<rparr>) s, l)"
| "exec_stmt now (SetEducationLastId pid) (s, l) =
     Some (map_posting pid (\<lambda>p. p\<lparr>education_id := Some l\<rparr>) s, l)"
| "exec_stmt now (SetDeadline t pid) (s, l) = Some (map_posting pid (\<lambda>p. p\<lparr>deadline := t\<rparr>) s, l)"
| "exec_stmt now (SetEmploymentTypeLastId pid) (s, l) =
     Some (map_posting pid (\<lambda>p. p\<lparr>employment_type_id := Some l\<rparr>) s, l)"
| "exec_stmt now (SetSalary t pid) (s, l) = Some (map_posting pid (\<lambda>p. p\<lparr>salary := t\<rparr>) s, l)"
| "exec_stmt now (DeleteJunctions j pid) (s, l) =
     Some (s\<lparr>juncs := (juncs s)(j := filter (\<lambda>r. fst r \<noteq> pid) (juncs s j))\<rparr>, l)"
| "exec_stmt now (InsertJunctionLastId j pid) (s, l) =
     (if (pid, l) \<in> set (juncs s j) then None
      else Some (s\<lparr>juncs := (juncs s)(j := juncs s j @ [(pid, l)])\<rparr>, l))"
| "exec_stmt now (TouchLastModified pid) (s, l) =
     Some (map_posting pid (\<lambda>p. p\<lparr>last_modified_date := Some now\<rparr>) s, l)"

fun run_stmts :: "ustring \<Rightarrow> stmt list \<Rightarrow> db \<times> nat \<Rightarrow> (db \<times> nat) option" where
  "run_stmts now [] st = Some st"
| "run_stmts now (q # qs) st =
     (case exec_stmt now q st of None \<Rightarrow> None | Some st1 \<Rightarrow> run_stmts now qs st1)"

text \<open>
  Modelled from the spec: \<open>executeTransaction\<close> of \<open>Model/executeDB.js\<close>, which is not
  under \<open>src/\<close>. By the specification the statements of one request run in order in a
  single transaction, and a failure of any of them rolls the whole of it back. \<open>now\<close>
  is the text of the current timestamp.
\<close>

definition executeTransaction :: "ustring \<Rightarrow> stmt list \<Rightarrow> db \<Rightarrow> bool \<times> db" where
  "executeTransaction now qs s =
     (case run_stmts now qs (s, 0) of None \<Rightarrow> (False, s) | Some (s1, l) \<Rightarrow> (True, s1))"

subsection \<open>Deleting\<close>

text \<open>
  The path parameter of \<open>router.delete('/:id')\<close>: a text the guard
  \<open>!id || isNaN(Number(id))\<close> refuses, or one it lets through, given by the posting id
  the database compares it equal to.
\<close>

datatype path_id = NotANumber | Num nat

text \<open>
  Modelled from the spec: the foreign keys of the junction tables are declared in
  \<open>createTables.js\<close>, not under \<open>src/\<close>. By the specification the junction rows of a
  posting are removed with it by the cascade of the store.
\<close>

definition delete_posting_row :: "nat \<Rightarrow> db \<Rightarrow> db" where
  "delete_posting_row pid s =
     s\<lparr>postings := filter (\<lambda>p. job_posting_id p \<noteq> pid) (postings s),
       juncs := (\<lambda>j. filter (\<lambda>r. fst r \<noteq> pid) (juncs s j))\<rparr>"

definition delete_posting :: "path_id \<Rightarrow> nat \<Rightarrow> db \<Rightarrow> nat response \<times> db" where
  "delete_posting rid userId s =
     (case rid of
        NotANumber \<Rightarrow> (Failure 400 MsgInvalidPostingId, s)
      | Num pid \<Rightarrow>
          (case filter (\<lambda>p. job_posting_id p = pid) (postings s) of
             [] \<Rightarrow> (Failure 404 MsgPostingToDeleteMissing, s)
           | job # rest \<Rightarrow>
               if user_id job \<noteq> Some userId then (Failure 403 MsgNotAllowedToDelete, s)
               else (Success 200 MsgDeleted pid, delete_posting_row pid s)))"

text \<open>
  A store with one company, one education level and one posting with them, number 5,
  owned by user 3, and a request body that changes the title only.
\<close>

definition owned_posting :: posting where
  "owned_posting =
     \<lparr>job_posting_id = 5, user_id = Some 3, company_id = 2, title = asc ''Developer'',
      link = asc ''http://x/1'', link_hash = asc ''h1'', education_id = Some 2,
      deadline = asc ''2025-01-31'', last_modified_date = None, salary = asc ''3,000'',
      employment_type_id = None, views = 0\<rparr>"

definition owned_db :: db where
  "owned_db =
     empty_db\<lparr>dims := (dims empty_db)
                (Company := \<lparr>dim_rows = [(2, asc ''Acme'')], dim_next = 3\<rparr>,
                 Education := \<lparr>dim_rows = [(2, asc ''Bachelor'')], dim_next = 3\<rparr>),
              postings := [owned_posting], next_posting_id := 6\<rparr>"

definition title_body :: "ustring \<Rightarrow> update_body" where
  "title_body t =
     \<lparr>b_companyName = None, b_title = Some t, b_link = None, b_educationLevel = None,
      b_deadline = None, b_locationNames = None, b_sectorNames = None,
      b_employmentType = None, b_salary = None\<rparr>"

section \<open>Bookmarks\<close>

text \<open>
  \<open>router.post('/')\<close> of the bookmarks: the posting id of the body is absent, or a
  number; 0 is falsy. \<open>now\<close> is the value of \<open>NOW()\<close>.
\<close>

definition is_bookmark_of :: "nat \<Rightarrow> nat \<Rightarrow> bookmark \<Rightarrow> bool" where
  "is_bookmark_of userId pid b = (bm_user_id b = userId \<and> bm_job_posting_id b = pid)"

definition toggle_bookmark :: "nat \<Rightarrow> nat option \<Rightarrow> nat \<Rightarrow> db \<Rightarrow> nat response \<times> db" where
  "toggle_bookmark now jobPostingId userId s =
     (case jobPostingId of
        None \<Rightarrow> (Failure 400 MsgPostingIdRequired, s)
      | Some pid \<Rightarrow>
          if pid = 0 then (Failure 400 MsgPostingIdRequired, s)
          else if filter (is_bookmark_of userId pid) (bookmarks s) \<noteq> []
          then (Success 200 MsgBookmarkRemoved pid,
                s\<lparr>bookmarks := filter (\<lambda>b. \<not> is_bookmark_of userId pid b) (bookmarks s)\<rparr>)
          else (Success 201 MsgBookmarkAdded pid,
                s\<lparr>bookmarks := bookmarks s @
                   [\<lparr>bm_user_id = userId, bm_job_posting_id = pid, bm_created_at = now\<rparr>]\<rparr>))"

text \<open>The endpoint called \<open>n\<close> times for the same pair, at successive times.\<close>

fun toggle_times :: "nat \<Rightarrow> nat \<Rightarrow> nat \<Rightarrow> nat \<Rightarrow> db \<Rightarrow> db" where
  "toggle_times 0 now pid userId s = s"
| "toggle_times (Suc n) now pid userId s =
     toggle_times n (now + 1) pid userId (snd (toggle_bookmark now (Some pid) userId s))"

text \<open>The number of bookmark rows of a user for a posting.\<close>

definition bookmark_count :: "nat \<Rightarrow> nat \<Rightarrow> db \<Rightarrow> nat" where
  "bookmark_count userId pid s = length (filter (is_bookmark_of userId pid) (bookmarks s))"

section \<open>Listings\<close>

text \<open>
  The \<open>SELECT\<close> statements the listing handlers hand to \<open>executeQuery\<close>
  (\<open>Model/executeDB.js\<close>, not under \<open>src/\<close>). A statement that selects a page ends
  with \<open>LIMIT ? OFFSET ?\<close> and carries the offset \<open>(page - 1) * 20\<close> the handler
  computes (exact here; the double of the program agrees below 2 to the 53); the one of
  the postings also carries the sort expression of the request, which the handler
  writes into its \<open>ORDER BY\<close> as it is. Whether the database runs a statement or
  raises is the parameter \<open>runs\<close> of the handlers: it raises on a sort expression it
  does not accept, on an offset outside the range of its \<open>LIMIT\<close> clause, and when
  it cannot be reached. Every handler calls \<open>executeQuery\<close> inside a \<open>try\<close> whose
  \<open>catch\<close> answers 500.
\<close>

datatype read_stmt =
    CountPostings
  | SelectPostings "ustring option" int
  | SelectBookmarks int
  | CountBookmarks
  | SelectPay int
  | CountPay

definition page_offset :: "int \<Rightarrow> int" where
  "page_offset page = (page - 1) * int PAGE_SIZE"

text \<open>
  An example of the parameter: a database that can be reached, whose \<open>LIMIT\<close> clause
  takes an offset below 2 to the 64, and which accepts as a sort expression the texts
  of a given list.
\<close>

definition example_runs :: "ustring list \<Rightarrow> read_stmt \<Rightarrow> bool" where
  "example_runs accepted st =
     (case st of
        SelectPostings sort_by off \<Rightarrow>
          (case sort_by of None \<Rightarrow> True | Some e \<Rightarrow> e \<in> set accepted) \<and> off < 2 ^ 64
      | SelectBookmarks off \<Rightarrow> off < 2 ^ 64
      | SelectPay off \<Rightarrow> off < 2 ^ 64
      | CountPostings \<Rightarrow> True
      | CountBookmarks \<Rightarrow> True
      | CountPay \<Rightarrow> True)"

text \<open>
  The body of \<open>POST /jobs\<close>: the page (an integer, 1 when absent), the sort
  expression and the five optional filters. A filter that is absent, 0 or the empty
  string is falsy and adds no condition.
\<close>

record list_body =
  l_page :: "int option"
  l_sort :: "ustring option"
  l_location :: "nat option"
  l_experience :: "nat option"
  l_sector :: "nat option"
  l_keyword :: "ustring option"
  l_company :: "ustring option"

text \<open>
  The \<open>WHERE\<close> clause over the joins, for one posting: the inner join needs its
  company; a location, experience or sector filter needs the junction row (and, for
  the sector, the sector row the condition is on); the keyword must occur in the title
  or the company name, the company filter in the company name. \<open>like t k\<close> is the
  database's \<open>t LIKE '%k%'\<close>, a parameter.
\<close>

definition posting_matches ::
  "(ustring \<Rightarrow> ustring \<Rightarrow> bool) \<Rightarrow> list_body \<Rightarrow> db \<Rightarrow> posting \<Rightarrow> bool" where
  "posting_matches like body s p =
     (case dim_name Company (company_id p) s of
        None \<Rightarrow> False
      | Some cname \<Rightarrow>
          (case l_location body of None \<Rightarrow> True
           | Some loc \<Rightarrow> loc = 0 \<or> (job_posting_id p, loc) \<in> set (juncs s JLocation)) \<and>
          (case l_experience body of None \<Rightarrow> True
           | Some ex \<Rightarrow> ex = 0 \<or> (job_posting_id p, ex) \<in> set (juncs s JExperience)) \<and>
          (case l_sector body of None \<Rightarrow> True
           | Some sec \<Rightarrow> sec = 0 \<or> ((job_posting_id p, sec) \<in> set (juncs s JSector)
                                      \<and> dim_name Sector sec s \<noteq> None)) \<and>
          (case l_keyword body of None \<Rightarrow> True
           | Some kw \<Rightarrow> kw = [] \<or> like (title p) kw \<or> like cname kw) \<and>
          (case l_company body of None \<Rightarrow> True
           | Some c \<Rightarrow> c = [] \<or> like cname c))"

text \<open>
  \<open>router.post('/')\<close> of the postings, in the order of the handler: the lower bound
  of the page; the count query, \<open>COUNT(DISTINCT j.job_posting_id)\<close>; the answer 404 for
  a count of 0; the data query; the upper bound of the page. \<open>order\<close> is the ordering
  of the database for a sort expression it accepts. The rows stand for the grouped
  result rows, without their concatenated names.
\<close>

definition list_postings ::
  "(read_stmt \<Rightarrow> bool) \<Rightarrow> (ustring \<Rightarrow> ustring \<Rightarrow> bool)
     \<Rightarrow> (ustring option \<Rightarrow> posting list \<Rightarrow> posting list)
     \<Rightarrow> list_body \<Rightarrow> db \<Rightarrow> posting page_data response" where
  "list_postings runs like order body s =
     (let page = (case l_page body of None \<Rightarrow> 1 | Some n \<Rightarrow> n) in
      if page < 1 then Failure 400 MsgInvalidPage
      else if \<not> runs CountPostings then Failure 500 MsgListFailed
      else
        (let matching = filter (posting_matches like body s) (postings s);
             totalCount = length (remdups (map job_posting_id matching))
         in if totalCount = 0 then Failure 404 MsgNoMatchingPostings
            else if \<not> runs (SelectPostings (l_sort body) (page_offset page))
            then Failure 500 MsgListFailed
            else if page > int (ceil_div totalCount PAGE_SIZE) \<or> page < 1
            then Failure 400 MsgInvalidPage
            else Success 200 MsgListOk
                   \<lparr>page_rows = page_slice page (order (l_sort body) matching),
                    page_info = make_pagination page totalCount\<rparr>))"

text \<open>
  \<open>router.get('/')\<close> of the bookmarks, in the order of the handler: the lower bound of
  the page; the data query (the user's bookmarks joined with their postings and
  companies, newest first); the count query, over the bookmarks of the user alone; the
  answer 404 for a count of 0; the upper bound of the page.
\<close>

definition list_bookmarks ::
  "(read_stmt \<Rightarrow> bool) \<Rightarrow> ustring option \<Rightarrow> nat \<Rightarrow> db
     \<Rightarrow> (bookmark \<times> posting) page_data response" where
  "list_bookmarks runs q userId s =
     (let page = query_page q in
      if page < 1 then Failure 400 MsgInvalidPage
      else if \<not> runs (SelectBookmarks (page_offset page)) then Failure 500 MsgBookmarkListFailed
      else if \<not> runs CountBookmarks then Failure 500 MsgBookmarkListFailed
      else
        (let joined = concat (map (\<lambda>b. map (\<lambda>p. (b, p))
                         (filter (\<lambda>p. job_posting_id p = bm_job_posting_id b
                                      \<and> dim_name Company (company_id p) s \<noteq> None) (postings s)))
                       (filter (\<lambda>b. bm_user_id b = userId) (bookmarks s)));
             rows = page_slice page (sort_key (\<lambda>r. - int (bm_created_at (fst r))) joined);
             totalCount = length (filter (\<lambda>b. bm_user_id b = userId) (bookmarks s))
         in if totalCount = 0 then Failure 404 MsgNoBookmarks
            else if page > int (ceil_div totalCount PAGE_SIZE) \<or> page < 1
            then Failure 400 MsgInvalidPage
            else Success 200 MsgListOk
                   \<lparr>page_rows = rows, page_info = make_pagination page totalCount\<rparr>))"

text \<open>
  The page a listing request of the postings asks for, and the totals the two
  handlers count: the distinct ids of the postings that match, and the bookmarks of
  the user.
\<close>

definition body_page :: "list_body \<Rightarrow> int" where
  "body_page body = (case l_page body of None \<Rightarrow> 1 | Some n \<Rightarrow> n)"

definition matching_total :: "(ustring \<Rightarrow> ustring \<Rightarrow> bool) \<Rightarrow> list_body \<Rightarrow> db \<Rightarrow> nat" where
  "matching_total like body s =
     length (remdups (map job_posting_id (filter (posting_matches like body s) (postings s))))"

definition bookmark_total :: "nat \<Rightarrow> db \<Rightarrow> nat" where
  "bookmark_total userId s = length (filter (\<lambda>b. bm_user_id b = userId) (bookmarks s))"

text \<open>A store with one company, one posting of it and a bookmark of user 7 for it.\<close>

definition bookmarked_posting :: posting where
  "bookmarked_posting =
     \<lparr>job_posting_id = 4, user_id = None, company_id = 2, title = asc ''Developer'',
      link = asc ''http://x/4'', link_hash = asc ''h4'', education_id = None,
      deadline = asc ''2025-01-31'', last_modified_date = None, salary = asc ''3,000'',
      employment_type_id = None, views = 0\<rparr>"

definition bookmarked_db :: db where
  "bookmarked_db =
     empty_db\<lparr>dims := (dims empty_db)(Company := \<lparr>dim_rows = [(2, asc ''Acme'')], dim_next = 3\<rparr>),
              postings := [bookmarked_posting], next_posting_id := 5,
              bookmarks := [\<lparr>bm_user_id = 7, bm_job_posting_id = 4, bm_created_at = 9\<rparr>]\<rparr>"

text \<open>A request body of the listing of the postings with a page and a sort expression only.\<close>

definition page_body :: "int \<Rightarrow> ustring option \<Rightarrow> list_body" where
  "page_body page sort_by =
     \<lparr>l_page = Some page, l_sort = sort_by, l_location = None, l_experience = None,
      l_sector = None, l_keyword = None, l_company = None\<rparr>"

section \<open>Recommendations\<close>

text \<open>
  \<open>router.get('/popular')\<close>. \<open>ORDER BY j.views DESC, RAND()\<close>: \<open>rnd\<close> gives the random
  number drawn for a posting in this request. The total the handler reports is the
  length of the page it has read, \<open>topJobs.length\<close>.
\<close>

definition popular_order :: "(nat \<Rightarrow> nat) \<Rightarrow> posting list \<Rightarrow> posting list" where
  "popular_order rnd ps =
     sort_key (\<lambda>p. - int (views p)) (sort_key (\<lambda>p. rnd (job_posting_id p)) ps)"

definition popular_qualifies :: "db \<Rightarrow> posting \<Rightarrow> bool" where
  "popular_qualifies s p = (views p > 0 \<and> dim_name Company (company_id p) s \<noteq> None)"

definition popular ::
  "(nat \<Rightarrow> nat) \<Rightarrow> ustring option \<Rightarrow> db \<Rightarrow> posting page_data response" where
  "popular rnd q s =
     (let page = query_page q in
      if page < 1 then Failure 400 MsgInvalidPage
      else
        (let topJobs = page_slice page
                         (popular_order rnd (filter (popular_qualifies s) (postings s)));
             totalItems = length topJobs
         in if totalItems = 0 then Failure 404 MsgNoPostingsLoaded
            else if page > int (ceil_div totalItems PAGE_SIZE) \<or> page < 1
            then Failure 400 MsgInvalidPage
            else Success 200 MsgListOk
                   \<lparr>page_rows = topJobs, page_info = make_pagination page totalItems\<rparr>))"

text \<open>
  A store with one company and \<open>n\<close> postings of it (fewer than 100), numbered
  from 1, each with its own link and viewed three times.
\<close>

definition viewed_posting :: "nat \<Rightarrow> posting" where
  "viewed_posting i =
     \<lparr>job_posting_id = i, user_id = None, company_id = 2, title = asc ''Developer'',
      link = asc ''http://x/'' @ pad2 i, link_hash = asc ''h'' @ pad2 i, education_id = None,
      deadline = asc ''2025-01-31'', last_modified_date = None, salary = asc ''3,000'',
      employment_type_id = None, views = 3\<rparr>"

definition viewed_db :: "nat \<Rightarrow> db" where
  "viewed_db n =
     empty_db\<lparr>dims := (dims empty_db)(Company := \<lparr>dim_rows = [(2, asc ''Acme'')], dim_next = 3\<rparr>),
              postings := map viewed_posting [1..<Suc n], next_posting_id := Suc n\<rparr>"

subsection \<open>The salary condition\<close>























section \<open>Registration\<close>

text \<open>
  \<open>emailRegex = /^[^\s@]+@[^\s@]+\.[^\s@]+$/\<close>. The first class cannot cross an at
  sign, so the local part is the text before the first one; what follows must be free
  of spaces and at signs and hold a dot that is neither its first nor its last
  character (\<open>emailRegex_test_iff\<close> relates this to the expression).
\<close>

definition is_email_char :: "nat \<Rightarrow> bool" where
  "is_email_char c = (\<not> is_js_space c \<and> c \<noteq> 64)"

definition emailRegex_test :: "ustring \<Rightarrow> bool" where
  "emailRegex_test t =
     (takeWhile is_email_char t \<noteq> [] \<and>
      (case dropWhile is_email_char t of
         [] \<Rightarrow> False
       | c # host \<Rightarrow> c = 64 \<and> list_all is_email_char host \<and> 46 \<in> set (tl (butlast host))))"

text \<open>
  The name expression: one or more of \<open>a-z\<close>, \<open>A-Z\<close>, the Hangul syllables U+AC00 to
  U+D7A3 and \<open>0-9\<close>; and the password expression \<open>/^[a-zA-Z0-9!@]+$/\<close>.
\<close>

definition is_alnum :: "nat \<Rightarrow> bool" where
  "is_alnum c = ((97 \<le> c \<and> c \<le> 122) \<or> (65 \<le> c \<and> c \<le> 90) \<or> is_digit c)"

definition nameRegex_test :: "ustring \<Rightarrow> bool" where
  "nameRegex_test t = (t \<noteq> [] \<and> list_all (\<lambda>c. is_alnum c \<or> (44032 \<le> c \<and> c \<le> 55203)) t)"

definition passwordRegex_test :: "ustring \<Rightarrow> bool" where
  "passwordRegex_test t = (t \<noteq> [] \<and> list_all (\<lambda>c. is_alnum c \<or> c = 33 \<or> c = 64) t)"

record register_body =
  reg_email :: "ustring option"
  reg_password :: "ustring option"
  reg_name :: "ustring option"

definition example_email :: ustring where
  "example_email = asc ''user@example.com''"

text \<open>
  \<open>router.post('/register')\<close>; \<open>base64\<close> is the encoding of the password. A field
  that is absent or the empty string is falsy.
\<close>

definition register ::
  "(ustring \<Rightarrow> ustring) \<Rightarrow> register_body \<Rightarrow> db \<Rightarrow> ustring response \<times> db" where
  "register base64 body s =
     (case (reg_email body, reg_password body, reg_name body) of
        (Some email, Some password, Some name) \<Rightarrow>
          if email = [] \<or> password = [] \<or> name = []
          then (Failure 400 MsgAllFieldsRequired, s)
          else if \<not> emailRegex_test email \<or> email = example_email
          then (Failure 400 MsgInvalidEmailFormat, s)
          else if \<not> nameRegex_test name then (Failure 400 MsgInvalidName, s)
          else if \<not> passwordRegex_test password then (Failure 400 MsgInvalidPassword, s)
          else if filter (\<lambda>u. u_email u = email) (users s) \<noteq> []
          then (Failure 409 MsgEmailTaken, s)
          else (Success 201 MsgRegistered email,
                s\<lparr>users := users s @
                   [\<lparr>u_email = email, u_password = base64 password, u_name = name\<rparr>]\<rparr>)
      | _ \<Rightarrow> (Failure 400 MsgAllFieldsRequired, s))"

section \<open>Properties of the record normalizer\<close>

lemma split_on_nonempty: "split_on p s \<noteq> []"
  by (induction s) (auto split: list.splits)

lemma split_on_no_sep: "\<forall>c\<in>set s. \<not> p c \<Longrightarrow> split_on p s = [s]"
  by (induction s) auto

lemma split_on_append:
  "p c \<Longrightarrow> split_on p (a @ c # b) = split_on p a @ split_on p b"
  by (induction a) (auto split: list.splits simp: split_on_nonempty)

lemma split_on_pieces: "\<forall>t\<in>set (split_on p s). \<forall>c\<in>set t. \<not> p c"
  by (induction s) (auto split: if_splits list.splits)

lemma set_trim: "set (trim s) \<subseteq> set s"
proof -
  have "set (dropWhile is_js_space (rev (dropWhile is_js_space s))) \<subseteq> set (rev (dropWhile is_js_space s))"
    by (meson set_dropWhileD subsetI)
  moreover have "set (dropWhile is_js_space s) \<subseteq> set s"
    by (meson set_dropWhileD subsetI)
  ultimately show ?thesis by (auto simp: trim_def)
qed

lemma last_dropWhile: "dropWhile P xs \<noteq> [] \<Longrightarrow> last (dropWhile P xs) = last xs"
  by (induction xs) (auto split: if_splits)

lemma hd_trim: "trim s \<noteq> [] \<Longrightarrow> \<not> is_js_space (hd (trim s))"
proof -
  assume a: "trim s \<noteq> []"
  let ?ys = "dropWhile is_js_space s"
  let ?xs = "dropWhile is_js_space (rev ?ys)"
  from a have xs: "?xs \<noteq> []" by (simp add: trim_def)
  have ys: "?ys \<noteq> []"
  proof
    assume "?ys = []"
    then have "?xs = []" by (simp only: rev.simps(1) dropWhile.simps(1))
    with xs show False by contradiction
  qed
  have "hd (trim s) = last ?xs" using xs by (simp add: trim_def hd_rev)
  also have "\<dots> = last (rev ?ys)" using xs by (rule last_dropWhile)
  also have "\<dots> = hd ?ys" using ys by (simp add: last_rev)
  finally show ?thesis using hd_dropWhile [OF ys] by simp
qed

lemma last_trim: "trim s \<noteq> [] \<Longrightarrow> \<not> is_js_space (last (trim s))"
  unfolding trim_def by (simp add: last_rev hd_dropWhile)

lemma takeWhile_spaces:
  "\<forall>w\<in>set ws. is_js_space w \<Longrightarrow> \<not> is_js_space y \<Longrightarrow>
     takeWhile is_js_space (ws @ y # r) = ws \<and> dropWhile is_js_space (ws @ y # r) = y # r"
  by (induction ws) auto

lemma digit_not_space: "is_digit c \<Longrightarrow> \<not> is_js_space c"
  by (auto simp: is_digit_def is_js_space_def)

lemma match_marker_at_marker:
  assumes "kw = word_updated \<or> kw = word_posted" and "\<forall>w\<in>set ws. is_js_space w"
    and "is_digit y1" "is_digit y2" "is_digit m1" "is_digit m2" "is_digit d1" "is_digit d2"
  shows "match_marker_at (kw @ ws @ [y1, y2, 47, m1, m2, 47, d1, d2] @ rest) =
     Some \<lparr>matched = kw @ ws @ [y1, y2, 47, m1, m2, 47, d1, d2],
           group_year = parseInt2 y1 y2, group_month = parseInt2 m1 m2,
           group_day = parseInt2 d1 d2\<rparr>"
proof -
  have len: "length kw = 3" using assms(1) by (auto simp: word_updated_def word_posted_def)
  have tk: "take 3 (kw @ ws @ [y1, y2, 47, m1, m2, 47, d1, d2] @ rest) = kw"
    and dr: "drop 3 (kw @ ws @ [y1, y2, 47, m1, m2, 47, d1, d2] @ rest)
               = ws @ y1 # ([y2, 47, m1, m2, 47, d1, d2] @ rest)"
    using len by simp_all
  note sp = takeWhile_spaces [OF assms(2) digit_not_space [OF assms(3)],
      of "[y2, 47, m1, m2, 47, d1, d2] @ rest"]
  show ?thesis
    unfolding match_marker_at_def tk dr Let_def using assms(1,3-8) sp by auto
qed

lemma find_marker_skip:
  "\<forall>i<length pre. match_marker_at (drop i (pre @ t)) = None \<Longrightarrow>
     find_marker (pre @ t) = find_marker t"
proof (induction pre)
  case Nil
  then show ?case by simp
next
  case (Cons c pre)
  from Cons.prems have 0: "match_marker_at (c # pre @ t) = None" by force
  have "\<forall>i<length pre. match_marker_at (drop i (pre @ t)) = None"
  proof (intro allI impI)
    fix i assume "i < length pre"
    then have "Suc i < length (c # pre)" by simp
    with Cons.prems have "match_marker_at (drop (Suc i) ((c # pre) @ t)) = None" by blast
    then show "match_marker_at (drop i (pre @ t)) = None" by simp
  qed
  with Cons.IH 0 show ?case by simp
qed

lemma find_marker_here: "match_marker_at t = Some m \<Longrightarrow> find_marker t = Some m"
  by (cases t) (auto simp: match_marker_at_def word_updated_def word_posted_def)

lemma remove_first_skip:
  "pat \<noteq> [] \<Longrightarrow> \<forall>i<length pre. take (length pat) (drop i (pre @ pat @ post)) \<noteq> pat \<Longrightarrow>
     remove_first pat (pre @ pat @ post) = pre @ post"
proof (induction pre)
  case Nil
  then show ?case by (cases pat) auto
next
  case (Cons c pre)
  from Cons.prems(2) have 0: "take (length pat) (c # pre @ pat @ post) \<noteq> pat" by force
  have "\<forall>i<length pre. take (length pat) (drop i (pre @ pat @ post)) \<noteq> pat"
  proof (intro allI impI)
    fix i assume "i < length pre"
    then have "Suc i < length (c # pre)" by simp
    with Cons.prems(2) have "take (length pat) (drop (Suc i) ((c # pre) @ pat @ post)) \<noteq> pat" by blast
    then show "take (length pat) (drop i (pre @ pat @ post)) \<noteq> pat" by simp
  qed
  with Cons.IH Cons.prems(1) 0 show ?case by simp
qed

lemma all_nat_split: "(\<forall>i::nat. P i) \<longleftrightarrow> P 0 \<and> (\<forall>i. P (Suc i))"
  by (metis not0_implies_Suc)

lemma match_marker_at_Nil: "match_marker_at [] = None"
  by (simp add: match_marker_at_def word_updated_def word_posted_def)

lemma find_marker_None: "find_marker s = None \<longleftrightarrow> (\<forall>i. match_marker_at (drop i s) = None)"
proof (induction s)
  case Nil
  then show ?case by (simp add: match_marker_at_Nil)
next
  case (Cons c cs)
  show ?case
    by (subst all_nat_split) (auto simp: Cons.IH split: option.splits)
qed

lemma two_digits:
  fixes a b :: nat
  assumes "a < 10" "b < 10"
  shows "(10 * a + b) div 10 = a" "(10 * a + b) mod 10 = b" "a mod 10 = a"
    "(10 * a + b + 2000) div 1000 = 2" "(10 * a + b + 2000) div 100 = 20"
    "(10 * a + b + 2000) div 10 = 200 + a"
  using assms by simp_all

lemma two_digits_mod:
  fixes a b :: nat
  assumes "a < 10" "b < 10"
  shows "(10 * a + b + 2000) mod 10 = b" "(200 + a) mod 10 = a"
proof -
  have "10 * a + b + 2000 = b + 10 * (a + 200)" by simp
  then have "(10 * a + b + 2000) mod 10 = b mod 10" by (simp only: mod_mult_self2)
  then show "(10 * a + b + 2000) mod 10 = b" using assms by simp
  have "200 + a = a + 10 * 20" by simp
  then have "(200 + a) mod 10 = a mod 10" by (simp only: mod_mult_self2)
  then show "(200 + a) mod 10 = a" using assms by simp
qed

lemma digit_split: "is_digit c \<Longrightarrow> \<exists>k<10. c = 48 + k"
  unfolding is_digit_def by (rule exI [of _ "c - 48"]) auto

lemma pad2_digits: "is_digit a \<Longrightarrow> is_digit b \<Longrightarrow> pad2 (parseInt2 a b) = [a, b]"
proof -
  assume "is_digit a" "is_digit b"
  then obtain k l where "k < 10" "a = 48 + k" "l < 10" "b = 48 + l"
    using digit_split by blast
  then show ?thesis
    by (simp add: pad2_def parseInt2_def digit_char_def two_digits two_digits_mod)
qed

lemma pad4_digits:
  "is_digit a \<Longrightarrow> is_digit b \<Longrightarrow> pad4 (parseInt2 a b + 2000) = [50, 48, a, b]"
proof -
  assume "is_digit a" "is_digit b"
  then obtain k l where "k < 10" "a = 48 + k" "l < 10" "b = 48 + l"
    using digit_split by blast
  then show ?thesis
    by (simp add: pad4_def parseInt2_def digit_char_def two_digits two_digits_mod)
qed

lemma occurrence_matches:
  assumes "kw = word_updated \<or> kw = word_posted" and "\<forall>w\<in>set ws. is_js_space w"
    and "is_digit y1" "is_digit y2" "is_digit m1" "is_digit m2" "is_digit d1" "is_digit d2"
    and "take (length (kw @ ws @ [y1, y2, 47, m1, m2, 47, d1, d2])) t
           = kw @ ws @ [y1, y2, 47, m1, m2, 47, d1, d2]"
  shows "match_marker_at t \<noteq> None"
proof -
  let ?M = "kw @ ws @ [y1, y2, 47, m1, m2, 47, d1, d2]"
  have "t = ?M @ drop (length ?M) t"
    using assms(9) append_take_drop_id [of "length ?M" t] by simp
  then have "t = kw @ ws @ [y1, y2, 47, m1, m2, 47, d1, d2] @ drop (length ?M) t" by simp
  then show ?thesis
    using match_marker_at_marker [OF assms(1-8), of "drop (length ?M) t"] by simp
qed

lemmas norm_defs = parseSectorsAndModifiedDate_def parseMultiValueField_def is_field_sep_def
  word_updated_def word_posted_def match_marker_at_def is_js_space_def is_digit_def
  parseInt2_def moment_format_def valid_date_def days_in_month_def is_leap_def iso_date_def
  pad4_def pad2_def digit_char_def sector_tokens_def trim_def word_etc_def
  invalid_date_text_def asc_def

lemma sector_tokens_pieces:
  "\<forall>t\<in>set (sector_tokens u). t \<noteq> [] \<and> t \<noteq> word_etc \<and> 44 \<notin> set t"
  using split_on_pieces [of "\<lambda>c. c = 44" u] set_trim
  by (auto simp: sector_tokens_def)

lemma parse_marker_found:
  assumes kw: "kw = word_updated \<or> kw = word_posted"
    and ws: "\<forall>w\<in>set ws. is_js_space w"
    and dg: "is_digit y1" "is_digit y2" "is_digit m1" "is_digit m2" "is_digit d1" "is_digit d2"
    and s: "s = pre @ kw @ ws @ [y1, y2, 47, m1, m2, 47, d1, d2] @ post"
    and first: "\<forall>i<length pre. match_marker_at (drop i s) = None"
  shows "sectorsArray (parseSectorsAndModifiedDate s) = sector_tokens (pre @ post) \<and>
     lastModifiedDate (parseSectorsAndModifiedDate s) =
       Some (if valid_date (parseInt2 y1 y2 + 2000) (parseInt2 m1 m2) (parseInt2 d1 d2)
             then [50, 48, y1, y2, 45, m1, m2, 45, d1, d2] else invalid_date_text)"
proof -
  let ?M = "kw @ ws @ [y1, y2, 47, m1, m2, 47, d1, d2]"
  let ?m = "\<lparr>matched = ?M, group_year = parseInt2 y1 y2, group_month = parseInt2 m1 m2,
           group_day = parseInt2 d1 d2\<rparr>"
  have s': "s = pre @ (?M @ post)" using s by simp
  have here: "match_marker_at (?M @ post) = Some ?m"
    using match_marker_at_marker [OF kw ws dg, of post] by simp
  have fm: "find_marker s = Some ?m"
    using find_marker_skip [of pre "?M @ post"] first find_marker_here [OF here]
    unfolding s' by simp
  have M_ne: "?M \<noteq> []" by simp
  have "\<forall>i<length pre. take (length ?M) (drop i (pre @ ?M @ post)) \<noteq> ?M"
  proof (intro allI impI notI)
    fix i assume i: "i < length pre"
      and eq: "take (length ?M) (drop i (pre @ ?M @ post)) = ?M"
    from occurrence_matches [OF kw ws dg eq] first i show False
      unfolding s' by simp
  qed
  from remove_first_skip [OF M_ne this]
  have rm: "remove_first ?M s = pre @ post" unfolding s' .
  have iso: "iso_date (parseInt2 y1 y2 + 2000) (parseInt2 m1 m2) (parseInt2 d1 d2)
      = [50, 48, y1, y2, 45, m1, m2, 45, d1, d2]"
    by (simp add: iso_date_def pad2_digits pad4_digits dg)
  show ?thesis
    by (simp add: parseSectorsAndModifiedDate_def fm rm moment_format_def iso)
qed

text \<open>
  C5, as the code has it. \<open>parseMultiValueField\<close> splits its input at every comma and
  middle dot, trims each piece and drops the empty ones: the empty input gives the
  empty list, no token is empty, holds a separator or starts or ends with a space, an
  input without separator gives its trimmed self, and the tokens of \<open>a\<close>, a
  separator, \<open>b\<close> are the tokens of \<open>a\<close> followed by those of \<open>b\<close>. The word
  U+C678 ("and others") is not filtered here: as a token of its own it is returned.
\<close>

theorem parseMultiValueField_tokens:
  "parseMultiValueField [] = [] \<and>
   [] \<notin> set (parseMultiValueField s) \<and>
   (\<forall>t\<in>set (parseMultiValueField s).
       (\<forall>c\<in>set t. \<not> is_field_sep c) \<and> \<not> is_js_space (hd t) \<and> \<not> is_js_space (last t)) \<and>
   ((\<forall>c\<in>set s. \<not> is_field_sep c) \<longrightarrow>
       parseMultiValueField s = (if trim s = [] then [] else [trim s])) \<and>
   (is_field_sep c \<longrightarrow>
       parseMultiValueField (a @ c # b) = parseMultiValueField a @ parseMultiValueField b) \<and>
   parseMultiValueField word_etc = [word_etc]"
proof -
  have 1: "parseMultiValueField [] = []"
    by (simp add: parseMultiValueField_def trim_def)
  have 2: "[] \<notin> set (parseMultiValueField s)"
    by (simp add: parseMultiValueField_def)
  have 3: "\<forall>t\<in>set (parseMultiValueField s).
       (\<forall>c\<in>set t. \<not> is_field_sep c) \<and> \<not> is_js_space (hd t) \<and> \<not> is_js_space (last t)"
    using split_on_pieces [of is_field_sep s] set_trim
    by (auto simp: parseMultiValueField_def hd_trim last_trim)
  have 4: "(\<forall>c\<in>set s. \<not> is_field_sep c) \<longrightarrow>
       parseMultiValueField s = (if trim s = [] then [] else [trim s])"
    by (simp add: parseMultiValueField_def split_on_no_sep)
  have 5: "is_field_sep c \<longrightarrow>
       parseMultiValueField (a @ c # b) = parseMultiValueField a @ parseMultiValueField b"
    by (simp add: parseMultiValueField_def split_on_append)
  have 6: "parseMultiValueField word_etc = [word_etc]"
    by (simp add: parseMultiValueField_def word_etc_def is_field_sep_def trim_def is_js_space_def)
  from 1 2 3 4 5 6 show ?thesis by blast
qed

theorem parseMultiValueField_tokens_witness:
  "is_field_sep 183 \<and>
   parseMultiValueField (asc ''Seoul '' @ 183 # asc '' Busan'')
     = parseMultiValueField (asc ''Seoul '') @ parseMultiValueField (asc '' Busan'') \<and>
   parseMultiValueField (asc '' Busan'') = [asc ''Busan''] \<and>
   [] \<notin> set (parseMultiValueField (asc '' Busan''))"
  using parseMultiValueField_tokens [of "asc '' Busan''" 183 "asc ''Seoul ''" "asc '' Busan''"]
  by (simp add: is_field_sep_def asc_def trim_def is_js_space_def)

text \<open>
  C5 as stated fails: on "IT, " followed by U+C678 the parser returns the sentinel
  word as its second token.
\<close>

theorem parseMultiValueField_keeps_etc:
  "parseMultiValueField (asc ''IT, '' @ word_etc) = [asc ''IT'', word_etc]"
  by (simp add: norm_defs)

text \<open>
  C6, as the code has it. When no position of the string matches the marker
  expression, no date is produced and the whole string is split at its commas. When
  the string is \<open>pre\<close>, a marker word, spaces, \<open>YY/MM/DD\<close>, \<open>post\<close>, and no match
  starts inside \<open>pre\<close>, exactly the marker text is removed, so the sectors are the
  tokens of \<open>pre @ post\<close> (what surrounds the marker stays), and the date is
  \<open>20YY-MM-DD\<close> when that is a day of the calendar and the library's text for an
  invalid date otherwise. Sector tokens are never empty, never the word U+C678 and
  hold no comma.
\<close>

theorem parseSectorsAndModifiedDate_spec:
  "(find_marker s = None \<longleftrightarrow> (\<forall>i. match_marker_at (drop i s) = None)) \<and>
   (find_marker s = None \<longrightarrow>
      parseSectorsAndModifiedDate s = \<lparr>sectorsArray = sector_tokens s, lastModifiedDate = None\<rparr>) \<and>
   ((kw = word_updated \<or> kw = word_posted) \<and> (\<forall>w\<in>set ws. is_js_space w) \<and>
    is_digit y1 \<and> is_digit y2 \<and> is_digit m1 \<and> is_digit m2 \<and> is_digit d1 \<and> is_digit d2 \<and>
    s = pre @ kw @ ws @ [y1, y2, 47, m1, m2, 47, d1, d2] @ post \<and>
    (\<forall>i<length pre. match_marker_at (drop i s) = None) \<longrightarrow>
      sectorsArray (parseSectorsAndModifiedDate s) = sector_tokens (pre @ post) \<and>
      lastModifiedDate (parseSectorsAndModifiedDate s) =
        Some (if valid_date (parseInt2 y1 y2 + 2000) (parseInt2 m1 m2) (parseInt2 d1 d2)
              then [50, 48, y1, y2, 45, m1, m2, 45, d1, d2] else invalid_date_text)) \<and>
   (\<forall>t\<in>set (sectorsArray (parseSectorsAndModifiedDate s)).
      t \<noteq> [] \<and> t \<noteq> word_etc \<and> 44 \<notin> set t)"
proof -
  have 1: "find_marker s = None \<longleftrightarrow> (\<forall>i. match_marker_at (drop i s) = None)"
    by (rule find_marker_None)
  have 2: "find_marker s = None \<longrightarrow>
      parseSectorsAndModifiedDate s = \<lparr>sectorsArray = sector_tokens s, lastModifiedDate = None\<rparr>"
    by (simp add: parseSectorsAndModifiedDate_def)
  have 3: "(kw = word_updated \<or> kw = word_posted) \<and> (\<forall>w\<in>set ws. is_js_space w) \<and>
    is_digit y1 \<and> is_digit y2 \<and> is_digit m1 \<and> is_digit m2 \<and> is_digit d1 \<and> is_digit d2 \<and>
    s = pre @ kw @ ws @ [y1, y2, 47, m1, m2, 47, d1, d2] @ post \<and>
    (\<forall>i<length pre. match_marker_at (drop i s) = None) \<longrightarrow>
      sectorsArray (parseSectorsAndModifiedDate s) = sector_tokens (pre @ post) \<and>
      lastModifiedDate (parseSectorsAndModifiedDate s) =
        Some (if valid_date (parseInt2 y1 y2 + 2000) (parseInt2 m1 m2) (parseInt2 d1 d2)
              then [50, 48, y1, y2, 45, m1, m2, 45, d1, d2] else invalid_date_text)"
    using parse_marker_found [of kw ws y1 y2 m1 m2 d1 d2 s pre post] by blast
  have 4: "\<forall>t\<in>set (sectorsArray (parseSectorsAndModifiedDate s)).
      t \<noteq> [] \<and> t \<noteq> word_etc \<and> 44 \<notin> set t"
    using sector_tokens_pieces
    by (auto simp: parseSectorsAndModifiedDate_def split: option.splits)
  from 1 2 3 4 show ?thesis by blast
qed

theorem parseSectorsAndModifiedDate_spec_witness:
  "parseSectorsAndModifiedDate (asc ''IT, Software '' @ word_updated @ asc '' 24/03/15'')
     = \<lparr>sectorsArray = [asc ''IT'', asc ''Software''],
        lastModifiedDate = Some (asc ''2024-03-15'')\<rparr> \<and>
   find_marker (asc ''IT, Software'') = None \<and>
   parseSectorsAndModifiedDate (asc ''IT, Software'')
     = \<lparr>sectorsArray = [asc ''IT'', asc ''Software''], lastModifiedDate = None\<rparr>"
proof -
  let ?s = "asc ''IT, Software '' @ word_updated @ asc '' 24/03/15''"
  have a: "?s = asc ''IT, Software '' @ word_updated @ [32] @ [50, 52, 47, 48, 51, 47, 49, 53] @ []"
    by (simp add: asc_def)
  have b: "\<forall>i<length (asc ''IT, Software ''). match_marker_at (drop i ?s) = None"
    by (simp add: All_less_Suc asc_def match_marker_at_def word_updated_def word_posted_def)
  have c: "sector_tokens (asc ''IT, Software '' @ []) = [asc ''IT'', asc ''Software'']"
    by (simp add: norm_defs)
  have d: "valid_date (parseInt2 50 52 + 2000) (parseInt2 48 51) (parseInt2 49 53)"
    by (simp add: norm_defs)
  have e: "find_marker (asc ''IT, Software'') = None"
    by (simp add: asc_def match_marker_at_def word_updated_def word_posted_def)
  have f: "sector_tokens (asc ''IT, Software'') = [asc ''IT'', asc ''Software'']"
    by (simp add: norm_defs)
  have g: "is_js_space 32" "is_digit 50" "is_digit 52" "is_digit 48" "is_digit 51" "is_digit 49" "is_digit 53"
    by (simp_all add: is_js_space_def is_digit_def)
  have 1: "sectorsArray (parseSectorsAndModifiedDate ?s) = [asc ''IT'', asc ''Software''] \<and>
     lastModifiedDate (parseSectorsAndModifiedDate ?s) = Some (asc ''2024-03-15'')"
    using parseSectorsAndModifiedDate_spec [of ?s word_updated "[32]" 50 52 48 51 49 53 "asc ''IT, Software ''" "[]"]
      a b c d g by (simp add: asc_def)
  have 2: "parseSectorsAndModifiedDate (asc ''IT, Software'')
     = \<lparr>sectorsArray = [asc ''IT'', asc ''Software''], lastModifiedDate = None\<rparr>"
    using parseSectorsAndModifiedDate_spec [of "asc ''IT, Software''"] e f by simp
  from 1 have "parseSectorsAndModifiedDate ?s = \<lparr>sectorsArray = [asc ''IT'', asc ''Software''],
        lastModifiedDate = Some (asc ''2024-03-15'')\<rparr>"
    by (cases "parseSectorsAndModifiedDate ?s") simp
  with 2 e show ?thesis by simp
qed

text \<open>
  C6 as stated fails on its own example when the marker stands in parentheses: only
  the marker text is removed, so the second sector keeps "()". And digits that are
  no calendar day give the text of an invalid date, not an ISO date.
\<close>

theorem parseSectors_keeps_parentheses:
  "sectorsArray (parseSectorsAndModifiedDate
      (asc ''IT, Software ('' @ word_updated @ asc '' 24/03/15)''))
     = [asc ''IT'', asc ''Software ()''] \<and>
   lastModifiedDate (parseSectorsAndModifiedDate (word_updated @ asc '' 24/13/45''))
     = Some (asc ''Invalid date'')"
  by (simp add: norm_defs)

section \<open>Properties of the registration\<close>

lemma takeWhile_email_local:
  "list_all is_email_char a \<Longrightarrow>
     takeWhile is_email_char (a @ 64 # r) = a \<and> dropWhile is_email_char (a @ 64 # r) = 64 # r"
  by (induction a) (auto simp: is_email_char_def)

lemma emailRegex_test_iff:
  "emailRegex_test t \<longleftrightarrow>
     (\<exists>a b c. t = a @ [64] @ b @ [46] @ c \<and> a \<noteq> [] \<and> b \<noteq> [] \<and> c \<noteq> [] \<and>
        list_all is_email_char a \<and> list_all is_email_char b \<and> list_all is_email_char c)"
proof
  assume "emailRegex_test t"
  then obtain host where a: "takeWhile is_email_char t \<noteq> []"
    and d: "dropWhile is_email_char t = 64 # host"
    and h: "list_all is_email_char host" and dot: "46 \<in> set (tl (butlast host))"
    by (auto simp: emailRegex_test_def split: list.splits)
  from dot obtain xs ys where sp: "tl (butlast host) = xs @ 46 # ys"
    by (meson split_list)
  then have bl: "butlast host \<noteq> []" by auto
  then have hn: "host \<noteq> []" by auto
  from bl sp have "butlast host = hd (butlast host) # xs @ 46 # ys"
    by (metis list.collapse)
  with hn have host: "host = (hd (butlast host) # xs) @ [46] @ (ys @ [last host])"
    by (metis append_butlast_last_id append.assoc append_Cons append_Nil)
  have t: "t = takeWhile is_email_char t @ [64] @ host"
    using takeWhile_dropWhile_id [of is_email_char t] d by simp
  have la: "list_all is_email_char (takeWhile is_email_char t)"
    by (simp add: list_all_iff) (meson set_takeWhileD)
  from h host have "list_all is_email_char (hd (butlast host) # xs)"
    and "list_all is_email_char (ys @ [last host])"
    by (metis list_all_append)+
  with t host a la show "\<exists>a b c. t = a @ [64] @ b @ [46] @ c \<and> a \<noteq> [] \<and> b \<noteq> [] \<and> c \<noteq> [] \<and>
        list_all is_email_char a \<and> list_all is_email_char b \<and> list_all is_email_char c"
    by (metis append_is_Nil_conv list.distinct(1))
next
  assume "\<exists>a b c. t = a @ [64] @ b @ [46] @ c \<and> a \<noteq> [] \<and> b \<noteq> [] \<and> c \<noteq> [] \<and>
        list_all is_email_char a \<and> list_all is_email_char b \<and> list_all is_email_char c"
  then obtain a b c where t: "t = a @ 64 # (b @ 46 # c)" and ne: "a \<noteq> []" "b \<noteq> []" "c \<noteq> []"
    and la: "list_all is_email_char a" and lb: "list_all is_email_char b"
    and lc: "list_all is_email_char c"
    by auto
  have dotc: "is_email_char 46" by (simp add: is_email_char_def is_js_space_def)
  have bl: "butlast (b @ 46 # c) = b @ 46 # butlast c" using ne by (simp add: butlast_append)
  have "tl (b @ 46 # butlast c) = tl b @ 46 # butlast c" using ne by simp
  with bl have "46 \<in> set (tl (butlast (b @ 46 # c)))" by simp
  with takeWhile_email_local [OF la, of "b @ 46 # c"] ne lb lc dotc show "emailRegex_test t"
    unfolding t by (simp add: emailRegex_test_def)
qed

text \<open>
  C10. The example address matches the email expression (which accepts exactly the
  texts \<open>a@b.c\<close> with \<open>a\<close>, \<open>b\<close>, \<open>c\<close> non-empty and free of spaces and at signs), yet
  a registration with it and with a password and a name is answered 400 "invalid
  email format" and leaves the store as it is; with any other address that matches,
  the answer is not that error.
\<close>

theorem register_example_email:
  "emailRegex_test example_email \<and>
   (emailRegex_test e \<longleftrightarrow>
     (\<exists>a b c. e = a @ [64] @ b @ [46] @ c \<and> a \<noteq> [] \<and> b \<noteq> [] \<and> c \<noteq> [] \<and>
        list_all is_email_char a \<and> list_all is_email_char b \<and> list_all is_email_char c)) \<and>
   (truthy (reg_password body) \<and> truthy (reg_name body) \<and> reg_email body = Some example_email
      \<longrightarrow> register base64 body s = (Failure 400 MsgInvalidEmailFormat, s)) \<and>
   (truthy (reg_password body) \<and> truthy (reg_name body) \<and> reg_email body = Some e \<and>
    emailRegex_test e \<and> e \<noteq> example_email
      \<longrightarrow> fst (register base64 body s) \<noteq> Failure 400 MsgInvalidEmailFormat)"
proof -
  have 1: "emailRegex_test example_email"
    by (simp add: emailRegex_test_def example_email_def asc_def is_email_char_def is_js_space_def)
  have ne: "example_email \<noteq> []" by (simp add: example_email_def asc_def)
  have 3: "truthy (reg_password body) \<and> truthy (reg_name body) \<and> reg_email body = Some example_email
      \<longrightarrow> register base64 body s = (Failure 400 MsgInvalidEmailFormat, s)"
    using ne by (auto simp: register_def truthy_def split: option.splits)
  have 4: "truthy (reg_password body) \<and> truthy (reg_name body) \<and> reg_email body = Some e \<and>
    emailRegex_test e \<and> e \<noteq> example_email
      \<longrightarrow> fst (register base64 body s) \<noteq> Failure 400 MsgInvalidEmailFormat"
  proof (intro impI, elim conjE)
    assume "truthy (reg_password body)" "truthy (reg_name body)" "reg_email body = Some e"
      "emailRegex_test e" "e \<noteq> example_email"
    moreover from \<open>emailRegex_test e\<close> have "e \<noteq> []" by (auto simp: emailRegex_test_def)
    ultimately show "fst (register base64 body s) \<noteq> Failure 400 MsgInvalidEmailFormat"
      by (auto simp: register_def truthy_def split: option.splits)
  qed
  from 1 emailRegex_test_iff [of e] 3 4 show ?thesis by blast
qed

theorem register_example_email_witness:
  "register (\<lambda>p. p) \<lparr>reg_email = Some example_email, reg_password = Some (asc ''pw1!''),
       reg_name = Some (asc ''Kim'')\<rparr> empty_db
     = (Failure 400 MsgInvalidEmailFormat, empty_db) \<and>
   emailRegex_test (asc ''kim@example.com'') \<and>
   fst (register (\<lambda>p. p) \<lparr>reg_email = Some (asc ''kim@example.com''),
       reg_password = Some (asc ''pw1!''), reg_name = Some (asc ''Kim'')\<rparr> empty_db)
     \<noteq> Failure 400 MsgInvalidEmailFormat"
proof -
  have a: "emailRegex_test (asc ''kim@example.com'')"
    by (simp add: emailRegex_test_def asc_def is_email_char_def is_js_space_def)
  have b: "asc ''kim@example.com'' \<noteq> example_email"
    by (simp add: example_email_def asc_def)
  have c: "truthy (Some (asc ''pw1!''))" "truthy (Some (asc ''Kim''))"
    by (simp_all add: truthy_def asc_def)
  show ?thesis
    using register_example_email [of "asc ''kim@example.com''"
        "\<lparr>reg_email = Some example_email, reg_password = Some (asc ''pw1!''),
          reg_name = Some (asc ''Kim'')\<rparr>" "\<lambda>p. p" empty_db]
      register_example_email [of "asc ''kim@example.com''"
        "\<lparr>reg_email = Some (asc ''kim@example.com''), reg_password = Some (asc ''pw1!''),
          reg_name = Some (asc ''Kim'')\<rparr>" "\<lambda>p. p" empty_db]
      a b c by simp
qed

section \<open>Properties of the bookmark toggle\<close>

lemma toggle_step:
  assumes "pid \<noteq> 0" and "bookmark_count userId pid s \<le> 1"
  shows "bookmark_count userId pid (snd (toggle_bookmark now (Some pid) userId s))
       = 1 - bookmark_count userId pid s"
proof (cases "filter (is_bookmark_of userId pid) (bookmarks s) = []")
  case True
  then show ?thesis
    using assms(1) by (simp add: toggle_bookmark_def bookmark_count_def is_bookmark_of_def)
next
  case False
  then have "bookmark_count userId pid s \<noteq> 0" by (simp add: bookmark_count_def)
  with assms(2) have one: "bookmark_count userId pid s = 1" by simp
  have "filter (is_bookmark_of userId pid)
          (filter (\<lambda>b. \<not> is_bookmark_of userId pid b) (bookmarks s)) = []"
    by (simp add: filter_empty_conv)
  with False one show ?thesis
    using assms(1) by (simp add: toggle_bookmark_def bookmark_count_def)
qed

lemma toggle_times_count:
  "pid \<noteq> 0 \<Longrightarrow> bookmark_count userId pid s \<le> 1 \<Longrightarrow>
     bookmark_count userId pid (toggle_times n now pid userId s)
       = (if even n then bookmark_count userId pid s else 1 - bookmark_count userId pid s)"
proof (induction n arbitrary: s now)
  case 0
  then show ?case by simp
next
  case (Suc n)
  let ?s1 = "snd (toggle_bookmark now (Some pid) userId s)"
  have c1: "bookmark_count userId pid ?s1 = 1 - bookmark_count userId pid s"
    using Suc.prems by (rule toggle_step)
  then have "bookmark_count userId pid ?s1 \<le> 1" by simp
  from Suc.IH [OF Suc.prems(1) this, of "now + 1"] c1 Suc.prems(2)
  show ?case by auto
qed

text \<open>
  C9. For a user and a posting (posting ids are positive) with no bookmark, after
  \<open>n\<close> calls of the toggle endpoint the bookmark table holds exactly one row for the
  pair when \<open>n\<close> is odd and none when \<open>n\<close> is even. A bookmark row is the user, the
  posting and the creation time: there is no field that could record "not
  bookmarked".
\<close>

theorem toggle_parity:
  assumes "pid \<noteq> 0" and "filter (is_bookmark_of userId pid) (bookmarks s) = []"
  shows "length (filter (is_bookmark_of userId pid)
            (bookmarks (toggle_times n now pid userId s))) = (if odd n then 1 else 0)"
  using toggle_times_count [of pid userId s n now] assms
  by (simp add: bookmark_count_def)

theorem toggle_parity_witness:
  "filter (is_bookmark_of 8 4) (bookmarks bookmarked_db) = [] \<and>
   length (filter (is_bookmark_of 8 4) (bookmarks (toggle_times 3 100 4 8 bookmarked_db))) = 1 \<and>
   length (filter (is_bookmark_of 8 4) (bookmarks (toggle_times 4 100 4 8 bookmarked_db))) = 0"
  using toggle_parity [of 4 8 bookmarked_db 3 100] toggle_parity [of 4 8 bookmarked_db 4 100]
  by (simp add: bookmarked_db_def is_bookmark_of_def)

section \<open>Properties of the listings\<close>

lemma ceil_div_bounds:
  assumes "0 < n"
  shows "20 * (ceil_div n 20 - 1) < n \<and> n \<le> 20 * ceil_div n 20"
proof -
  define q where "q = (n + 19) div 20"
  define r where "r = (n + 19) mod 20"
  have 1: "20 * q + r = n + 19" unfolding q_def r_def by (rule mult_div_mod_eq)
  have 2: "r < 20" unfolding r_def by simp
  have c: "ceil_div n 20 = q" by (simp add: ceil_div_def q_def)
  from 1 2 assms show ?thesis unfolding c by (cases q) auto
qed

lemma list_postings_cases:
  "list_postings runs like order body s =
     (if body_page body < 1 then Failure 400 MsgInvalidPage
      else if \<not> runs CountPostings then Failure 500 MsgListFailed
      else if matching_total like body s = 0 then Failure 404 MsgNoMatchingPostings
      else if \<not> runs (SelectPostings (l_sort body) (page_offset (body_page body)))
      then Failure 500 MsgListFailed
      else if body_page body > int (ceil_div (matching_total like body s) PAGE_SIZE)
      then Failure 400 MsgInvalidPage
      else Success 200 MsgListOk
             \<lparr>page_rows = page_slice (body_page body)
                  (order (l_sort body) (filter (posting_matches like body s) (postings s))),
              page_info = make_pagination (body_page body) (matching_total like body s)\<rparr>)"
  by (simp add: list_postings_def body_page_def matching_total_def Let_def)

lemma list_bookmarks_cases:
  "\<exists>rows. list_bookmarks runs q userId s =
     (if query_page q < 1 then Failure 400 MsgInvalidPage
      else if \<not> runs (SelectBookmarks (page_offset (query_page q)))
      then Failure 500 MsgBookmarkListFailed
      else if \<not> runs CountBookmarks then Failure 500 MsgBookmarkListFailed
      else if bookmark_total userId s = 0 then Failure 404 MsgNoBookmarks
      else if query_page q > int (ceil_div (bookmark_total userId s) PAGE_SIZE)
      then Failure 400 MsgInvalidPage
      else Success 200 MsgListOk
             \<lparr>page_rows = rows,
              page_info = make_pagination (query_page q) (bookmark_total userId s)\<rparr>)"
  by (simp add: list_bookmarks_def bookmark_total_def Let_def)

lemma query_page_neg:
  "query_page q < 1 \<longleftrightarrow> (\<exists>t n. q = Some t \<and> js_parseInt t = Some n \<and> n < 0)"
  by (auto simp: query_page_def split: option.splits)

lemma query_page_zero: "query_page (Some (asc ''0'')) = 1"
  by (simp add: query_page_def js_parseInt_def asc_def is_js_space_def is_digit_def digits_val_def)

lemma query_page_examples:
  "query_page (Some (asc ''1'')) = 1"
  "query_page (Some (asc ''2'')) = 2"
  "query_page (Some (asc ''-1'')) = - 1"
  by (simp_all add: query_page_def js_parseInt_def asc_def is_js_space_def is_digit_def
      digits_val_def)

lemma bookmarked_db_totals:
  "matching_total (\<lambda>t k. True) (page_body page sort_by) bookmarked_db = 1"
  "bookmark_total 7 bookmarked_db = 1"
  "bookmark_total 9 bookmarked_db = 0"
  by (simp_all add: matching_total_def bookmark_total_def posting_matches_def page_body_def
      bookmarked_db_def bookmarked_posting_def dim_name_def empty_db_def)

text \<open>
  C4, as the code has it, for the two listings the claim is about. The listing of the
  postings (\<open>POST /jobs\<close>) takes the page from the body and answers 400 "invalid page"
  to a page below 1. The listing of the bookmarks (\<open>GET /bookmarks\<close>) takes it from the
  query string with \<open>parseInt(..) || 1\<close>: only a negative number is answered 400, while
  0 (like an absent or non-numeric page) is served as page 1. For a page from 1 on, a
  statement the database does not run is answered 500: for the postings the count
  query, and with a positive count the data query with the sort expression of the
  request and the offset of the page; for the bookmarks the data query with the offset
  of the page and the count query, both before the count is looked at. When the
  statements run: no match is answered 404 (no matching postings, no bookmarks)
  whatever the page; with matches, a page above \<open>ceil(total / 20)\<close> is answered 400
  "invalid page", and a page up to it is served with the pagination of that page and
  total.
\<close>

theorem listing_pages:
  "(body_page body < 1 \<longrightarrow>
      list_postings runs like order body s = Failure 400 MsgInvalidPage) \<and>
   (1 \<le> body_page body \<and> \<not> runs CountPostings \<longrightarrow>
      list_postings runs like order body s = Failure 500 MsgListFailed) \<and>
   (1 \<le> body_page body \<and> runs CountPostings \<and> matching_total like body s = 0 \<longrightarrow>
      list_postings runs like order body s = Failure 404 MsgNoMatchingPostings) \<and>
   (1 \<le> body_page body \<and> runs CountPostings \<and> 0 < matching_total like body s \<and>
    \<not> runs (SelectPostings (l_sort body) ((body_page body - 1) * 20)) \<longrightarrow>
      list_postings runs like order body s = Failure 500 MsgListFailed) \<and>
   (1 \<le> body_page body \<and> runs CountPostings \<and> 0 < matching_total like body s \<and>
    runs (SelectPostings (l_sort body) ((body_page body - 1) * 20)) \<and>
    int (ceil_div (matching_total like body s) 20) < body_page body \<longrightarrow>
      list_postings runs like order body s = Failure 400 MsgInvalidPage) \<and>
   (1 \<le> body_page body \<and> runs CountPostings \<and> 0 < matching_total like body s \<and>
    runs (SelectPostings (l_sort body) ((body_page body - 1) * 20)) \<and>
    body_page body \<le> int (ceil_div (matching_total like body s) 20) \<longrightarrow>
      (\<exists>rows. list_postings runs like order body s = Success 200 MsgListOk
         \<lparr>page_rows = rows,
          page_info = make_pagination (body_page body) (matching_total like body s)\<rparr>)) \<and>
   (query_page q < 1 \<longleftrightarrow> (\<exists>t n. q = Some t \<and> js_parseInt t = Some n \<and> n < 0)) \<and>
   query_page (Some (asc ''0'')) = 1 \<and>
   (query_page q < 1 \<longrightarrow> list_bookmarks runs q userId s = Failure 400 MsgInvalidPage) \<and>
   (1 \<le> query_page q \<and>
    \<not> (runs (SelectBookmarks ((query_page q - 1) * 20)) \<and> runs CountBookmarks) \<longrightarrow>
      list_bookmarks runs q userId s = Failure 500 MsgBookmarkListFailed) \<and>
   (1 \<le> query_page q \<and> runs (SelectBookmarks ((query_page q - 1) * 20)) \<and>
    runs CountBookmarks \<and> bookmark_total userId s = 0 \<longrightarrow>
      list_bookmarks runs q userId s = Failure 404 MsgNoBookmarks) \<and>
   (1 \<le> query_page q \<and> runs (SelectBookmarks ((query_page q - 1) * 20)) \<and>
    runs CountBookmarks \<and> 0 < bookmark_total userId s \<and>
    int (ceil_div (bookmark_total userId s) 20) < query_page q \<longrightarrow>
      list_bookmarks runs q userId s = Failure 400 MsgInvalidPage) \<and>
   (1 \<le> query_page q \<and> runs (SelectBookmarks ((query_page q - 1) * 20)) \<and>
    runs CountBookmarks \<and> 0 < bookmark_total userId s \<and>
    query_page q \<le> int (ceil_div (bookmark_total userId s) 20) \<longrightarrow>
      (\<exists>rows. list_bookmarks runs q userId s = Success 200 MsgListOk
         \<lparr>page_rows = rows,
          page_info = make_pagination (query_page q) (bookmark_total userId s)\<rparr>)) \<and>
   (0 < n \<longrightarrow> 20 * (ceil_div n 20 - 1) < n \<and> n \<le> 20 * ceil_div n 20)"
proof -
  note lp = list_postings_cases [of runs like order body s]
  obtain rows where lb: "list_bookmarks runs q userId s =
     (if query_page q < 1 then Failure 400 MsgInvalidPage
      else if \<not> runs (SelectBookmarks (page_offset (query_page q)))
      then Failure 500 MsgBookmarkListFailed
      else if \<not> runs CountBookmarks then Failure 500 MsgBookmarkListFailed
      else if bookmark_total userId s = 0 then Failure 404 MsgNoBookmarks
      else if query_page q > int (ceil_div (bookmark_total userId s) PAGE_SIZE)
      then Failure 400 MsgInvalidPage
      else Success 200 MsgListOk
             \<lparr>page_rows = rows,
              page_info = make_pagination (query_page q) (bookmark_total userId s)\<rparr>)"
    using list_bookmarks_cases [of runs q userId s] by blast
  have o: "page_offset p = (p - 1) * 20" for p
    by (simp add: page_offset_def PAGE_SIZE_def)
  have 1: "body_page body < 1 \<longrightarrow>
      list_postings runs like order body s = Failure 400 MsgInvalidPage"
    by (simp add: lp)
  have 2: "1 \<le> body_page body \<and> \<not> runs CountPostings \<longrightarrow>
      list_postings runs like order body s = Failure 500 MsgListFailed"
    by (simp add: lp)
  have 3: "1 \<le> body_page body \<and> runs CountPostings \<and> matching_total like body s = 0 \<longrightarrow>
      list_postings runs like order body s = Failure 404 MsgNoMatchingPostings"
    by (simp add: lp)
  have 4: "1 \<le> body_page body \<and> runs CountPostings \<and> 0 < matching_total like body s \<and>
    \<not> runs (SelectPostings (l_sort body) ((body_page body - 1) * 20)) \<longrightarrow>
      list_postings runs like order body s = Failure 500 MsgListFailed"
    by (simp add: lp o)
  have 5: "1 \<le> body_page body \<and> runs CountPostings \<and> 0 < matching_total like body s \<and>
    runs (SelectPostings (l_sort body) ((body_page body - 1) * 20)) \<and>
    int (ceil_div (matching_total like body s) 20) < body_page body \<longrightarrow>
      list_postings runs like order body s = Failure 400 MsgInvalidPage"
    by (simp add: lp o PAGE_SIZE_def)
  have 6: "1 \<le> body_page body \<and> runs CountPostings \<and> 0 < matching_total like body s \<and>
    runs (SelectPostings (l_sort body) ((body_page body - 1) * 20)) \<and>
    body_page body \<le> int (ceil_div (matching_total like body s) 20) \<longrightarrow>
      (\<exists>rows. list_postings runs like order body s = Success 200 MsgListOk
         \<lparr>page_rows = rows,
          page_info = make_pagination (body_page body) (matching_total like body s)\<rparr>)"
    by (simp add: lp o PAGE_SIZE_def)
  have 7: "query_page q < 1 \<longrightarrow> list_bookmarks runs q userId s = Failure 400 MsgInvalidPage"
    by (simp add: lb)
  have 8: "1 \<le> query_page q \<and>
    \<not> (runs (SelectBookmarks ((query_page q - 1) * 20)) \<and> runs CountBookmarks) \<longrightarrow>
      list_bookmarks runs q userId s = Failure 500 MsgBookmarkListFailed"
    by (simp add: lb o)
  have 9: "1 \<le> query_page q \<and> runs (SelectBookmarks ((query_page q - 1) * 20)) \<and>
    runs CountBookmarks \<and> bookmark_total userId s = 0 \<longrightarrow>
      list_bookmarks runs q userId s = Failure 404 MsgNoBookmarks"
    by (simp add: lb o)
  have 10: "1 \<le> query_page q \<and> runs (SelectBookmarks ((query_page q - 1) * 20)) \<and>
    runs CountBookmarks \<and> 0 < bookmark_total userId s \<and>
    int (ceil_div (bookmark_total userId s) 20) < query_page q \<longrightarrow>
      list_bookmarks runs q userId s = Failure 400 MsgInvalidPage"
    by (simp add: lb o PAGE_SIZE_def)
  have 11: "1 \<le> query_page q \<and> runs (SelectBookmarks ((query_page q - 1) * 20)) \<and>
    runs CountBookmarks \<and> 0 < bookmark_total userId s \<and>
    query_page q \<le> int (ceil_div (bookmark_total userId s) 20) \<longrightarrow>
      (\<exists>rows. list_bookmarks runs q userId s = Success 200 MsgListOk
         \<lparr>page_rows = rows,
          page_info = make_pagination (query_page q) (bookmark_total userId s)\<rparr>)"
    by (simp add: lb o PAGE_SIZE_def)
  have 12: "0 < n \<longrightarrow> 20 * (ceil_div n 20 - 1) < n \<and> n \<le> 20 * ceil_div n 20"
    using ceil_div_bounds by blast
  show ?thesis
    using 1 2 3 4 5 6 7 8 9 10 11 12 query_page_neg [of q] query_page_zero by blast
qed

text \<open>
  C4 as stated fails for the listing of the bookmarks: the page 0 is not rejected but
  served as page 1.
\<close>

theorem list_bookmarks_page_zero:
  "list_bookmarks (example_runs []) (Some (asc ''0'')) 7 bookmarked_db
   = Success 200 MsgListOk
       \<lparr>page_rows =
          [(\<lparr>bm_user_id = 7, bm_job_posting_id = 4, bm_created_at = 9\<rparr>, bookmarked_posting)],
        page_info = \<lparr>currentPage = 1, totalPages = 1, pageSize = 20, totalItems = 1\<rparr>\<rparr>"
proof -
  have c: "dim_name Company (company_id bookmarked_posting) bookmarked_db \<noteq> None"
    by (simp add: dim_name_def bookmarked_db_def bookmarked_posting_def empty_db_def)
  have p: "job_posting_id bookmarked_posting = 4" by (simp add: bookmarked_posting_def)
  have b: "bookmarks bookmarked_db = [\<lparr>bm_user_id = 7, bm_job_posting_id = 4, bm_created_at = 9\<rparr>]"
    and ps: "postings bookmarked_db = [bookmarked_posting]"
    by (simp_all add: bookmarked_db_def)
  show ?thesis
    by (simp add: list_bookmarks_def query_page_zero b ps c p PAGE_SIZE_def ceil_div_def
        make_pagination_def page_slice_def example_runs_def page_offset_def)
qed

text \<open>
  The cases of C4 on the store with one posting and one bookmark of user 7, with the
  example database that accepts the sort expression \<open>deadline\<close>. For the postings:
  the page 0 and the page 2 of the one matching posting are answered 400, the page 1
  is served, and a sort expression the database refuses is answered 500. For the
  bookmarks: the page -1 is answered 400; the user 9 without bookmarks 404, also on
  page 2; the page 2 of the one bookmark of user 7 400; and the page 10 to the 24,
  whose offset the database refuses, 500.
\<close>

theorem listing_pages_witness:
  "list_postings (example_runs [asc ''deadline'']) (\<lambda>t k. True) (\<lambda>e ps. ps)
       (page_body 0 None) bookmarked_db
     = Failure 400 MsgInvalidPage \<and>
   list_postings (example_runs [asc ''deadline'']) (\<lambda>t k. True) (\<lambda>e ps. ps)
       (page_body 2 (Some (asc ''deadline''))) bookmarked_db
     = Failure 400 MsgInvalidPage \<and>
   (\<exists>rows. list_postings (example_runs [asc ''deadline'']) (\<lambda>t k. True) (\<lambda>e ps. ps)
       (page_body 1 (Some (asc ''deadline''))) bookmarked_db
     = Success 200 MsgListOk
         \<lparr>page_rows = rows,
          page_info = \<lparr>currentPage = 1, totalPages = 1, pageSize = 20, totalItems = 1\<rparr>\<rparr>) \<and>
   list_postings (example_runs [asc ''deadline'']) (\<lambda>t k. True) (\<lambda>e ps. ps)
       (page_body 1 (Some (asc ''deadline; x''))) bookmarked_db
     = Failure 500 MsgListFailed \<and>
   list_bookmarks (example_runs []) (Some (asc ''-1'')) 7 bookmarked_db
     = Failure 400 MsgInvalidPage \<and>
   list_bookmarks (example_runs []) (Some (asc ''2'')) 9 bookmarked_db
     = Failure 404 MsgNoBookmarks \<and>
   list_bookmarks (example_runs []) (Some (asc ''2'')) 7 bookmarked_db
     = Failure 400 MsgInvalidPage \<and>
   query_page (Some (asc ''1000000000000000000000000'')) = 10 ^ 24 \<and>
   list_bookmarks (example_runs []) (Some (asc ''1000000000000000000000000'')) 7 bookmarked_db
     = Failure 500 MsgBookmarkListFailed"
proof -
  have bp: "body_page (page_body page sort_by) = page" for page sort_by
    by (simp add: body_page_def page_body_def)
  have ls: "l_sort (page_body page sort_by) = sort_by" for page sort_by
    by (simp add: page_body_def)
  have cd: "ceil_div (Suc 0) 20 = Suc 0" by (simp add: ceil_div_def)
  have mp: "make_pagination 1 (Suc 0)
      = \<lparr>currentPage = 1, totalPages = 1, pageSize = 20, totalItems = 1\<rparr>"
    by (simp add: make_pagination_def ceil_div_def PAGE_SIZE_def)
  have big: "query_page (Some (asc ''1000000000000000000000000'')) = 10 ^ 24"
    by (simp add: query_page_def js_parseInt_def asc_def is_js_space_def is_digit_def
        digits_val_def)
  have r1: "example_runs acc CountPostings" "example_runs acc CountBookmarks"
    "example_runs acc (SelectBookmarks off) = (off < 2 ^ 64)"
    "example_runs acc (SelectPostings None off) = (off < 2 ^ 64)"
    "example_runs acc (SelectPostings (Some e) off) = (e \<in> set acc \<and> off < 2 ^ 64)"
    for acc off e
    by (simp_all add: example_runs_def)
  have x: "asc ''deadline; x'' \<noteq> asc ''deadline''" by (simp add: asc_def)
  have a: "list_postings (example_runs [asc ''deadline'']) (\<lambda>t k. True) (\<lambda>e ps. ps)
       (page_body 0 None) bookmarked_db = Failure 400 MsgInvalidPage"
    using listing_pages [of "page_body 0 None" "example_runs [asc ''deadline'']"
        "\<lambda>t k. True" "\<lambda>e ps. ps" bookmarked_db]
    by (simp add: bp)
  have b: "list_postings (example_runs [asc ''deadline'']) (\<lambda>t k. True) (\<lambda>e ps. ps)
       (page_body 2 (Some (asc ''deadline''))) bookmarked_db = Failure 400 MsgInvalidPage"
    using listing_pages [of "page_body 2 (Some (asc ''deadline''))"
        "example_runs [asc ''deadline'']" "\<lambda>t k. True" "\<lambda>e ps. ps" bookmarked_db]
    by (simp add: bp ls bookmarked_db_totals cd r1)
  have c: "\<exists>rows. list_postings (example_runs [asc ''deadline'']) (\<lambda>t k. True) (\<lambda>e ps. ps)
       (page_body 1 (Some (asc ''deadline''))) bookmarked_db
     = Success 200 MsgListOk
         \<lparr>page_rows = rows,
          page_info = \<lparr>currentPage = 1, totalPages = 1, pageSize = 20, totalItems = 1\<rparr>\<rparr>"
    using listing_pages [of "page_body 1 (Some (asc ''deadline''))"
        "example_runs [asc ''deadline'']" "\<lambda>t k. True" "\<lambda>e ps. ps" bookmarked_db]
    by (simp add: bp ls bookmarked_db_totals cd r1 mp)
  have d: "list_postings (example_runs [asc ''deadline'']) (\<lambda>t k. True) (\<lambda>e ps. ps)
       (page_body 1 (Some (asc ''deadline; x''))) bookmarked_db = Failure 500 MsgListFailed"
    using listing_pages [of "page_body 1 (Some (asc ''deadline; x''))"
        "example_runs [asc ''deadline'']" "\<lambda>t k. True" "\<lambda>e ps. ps" bookmarked_db]
    by (simp add: bp ls bookmarked_db_totals r1 x)
  have e: "list_bookmarks (example_runs []) (Some (asc ''-1'')) 7 bookmarked_db
     = Failure 400 MsgInvalidPage"
    using listing_pages [of _ "example_runs []" _ _ bookmarked_db "Some (asc ''-1'')" 7]
    by (simp add: query_page_examples)
  have f: "list_bookmarks (example_runs []) (Some (asc ''2'')) 9 bookmarked_db
     = Failure 404 MsgNoBookmarks"
    using listing_pages [of _ "example_runs []" _ _ bookmarked_db "Some (asc ''2'')" 9]
    by (simp add: query_page_examples bookmarked_db_totals r1)
  have g: "list_bookmarks (example_runs []) (Some (asc ''2'')) 7 bookmarked_db
     = Failure 400 MsgInvalidPage"
    using listing_pages [of _ "example_runs []" _ _ bookmarked_db "Some (asc ''2'')" 7]
    by (simp add: query_page_examples bookmarked_db_totals cd r1)
  have h: "list_bookmarks (example_runs []) (Some (asc ''1000000000000000000000000'')) 7
       bookmarked_db = Failure 500 MsgBookmarkListFailed"
    using listing_pages [of _ "example_runs []" _ _ bookmarked_db
        "Some (asc ''1000000000000000000000000'')" 7]
    by (simp add: big r1)
  from a b c d e f g h big show ?thesis by blast
qed

section \<open>Properties of the reference-data upsert\<close>

lemma label_rows_insert_present:
  assumes "label_rows d v s \<noteq> []"
  shows "insert_ignore_dim d v s = s"
proof -
  from assms obtain r where "r \<in> set (dim_rows (dims s d))" "snd r = v"
    by (auto simp: label_rows_def filter_empty_conv)
  then have "v \<in> snd ` set (dim_rows (dims s d))" by force
  then show ?thesis by (simp add: insert_ignore_dim_def dim_insert_def)
qed

lemma label_rows_insert_absent:
  "label_rows d v s = [] \<Longrightarrow>
     label_rows d v (insert_ignore_dim d v s) = [(dim_next (dims s d), v)]"
  by (auto simp: label_rows_def insert_ignore_dim_def dim_insert_def filter_empty_conv)

lemma select_dim_id_label_rows:
  "select_dim_id d v s = (case label_rows d v s of [] \<Rightarrow> None | r # rs \<Rightarrow> Some (fst r))"
  by (simp add: select_dim_id_def label_rows_def)

lemma get_or_create_twice:
  assumes "length (label_rows d v s) \<le> 1"
  shows "\<exists>i. get_or_create d v s = (Some i, insert_ignore_dim d v s) \<and>
             get_or_create d v (insert_ignore_dim d v s) = (Some i, insert_ignore_dim d v s) \<and>
             label_rows d v (insert_ignore_dim d v s) = [(i, v)]"
proof (cases "label_rows d v s")
  case Nil
  then show ?thesis
    using label_rows_insert_absent [of d v s]
      label_rows_insert_present [of d v "insert_ignore_dim d v s"]
    by (simp add: get_or_create_def select_dim_id_label_rows)
next
  case (Cons r rs)
  with assms have rs: "rs = []" by simp
  have "snd r = v"
    using Cons filter_eq_ConsD [of "\<lambda>r. snd r = v" "dim_rows (dims s d)" r rs]
    by (auto simp: label_rows_def)
  then have r: "r = (fst r, v)" by (cases r) simp
  have same: "insert_ignore_dim d v s = s"
    using Cons by (simp add: label_rows_insert_present)
  show ?thesis
    using Cons rs r by (simp add: get_or_create_def same select_dim_id_label_rows)
qed

lemma upsert_dim_get_or_create:
  "length (label_rows d v s) \<le> 1 \<Longrightarrow>
     snd (upsert_dim d v s) = snd (get_or_create d v s) \<and>
     Some (fst (upsert_dim d v s)) = fst (get_or_create d v s)"
proof (cases "label_rows d v s")
  case Nil
  then show ?thesis
    using label_rows_insert_absent [of d v s]
    by (simp add: get_or_create_def upsert_dim_def select_dim_id_label_rows)
next
  case (Cons r rs)
  then have same: "insert_ignore_dim d v s = s"
    by (simp add: label_rows_insert_present)
  show ?thesis
    using Cons by (simp add: get_or_create_def upsert_dim_def same select_dim_id_label_rows)
qed

text \<open>
  C3. In a dimension table that holds a label at most once (the unique key), the
  get-or-create of the batch path, run twice for a label, returns the same id both
  times, the second run changes nothing, and afterwards the table has exactly one row
  for the label, with that id. The upsert statement of the endpoints yields the same
  id and the same table. This holds for each of the six dimensions.
\<close>

theorem get_or_create_idempotent:
  assumes "length (label_rows d v s) \<le> 1"
  shows "\<exists>i s1. get_or_create d v s = (Some i, s1) \<and> get_or_create d v s1 = (Some i, s1) \<and>
     label_rows d v s1 = [(i, v)] \<and>
     upsert_dim d v s = (i, s1) \<and> upsert_dim d v s1 = (i, s1)"
proof -
  from get_or_create_twice [OF assms] obtain i where
    1: "get_or_create d v s = (Some i, insert_ignore_dim d v s)" and
    2: "get_or_create d v (insert_ignore_dim d v s) = (Some i, insert_ignore_dim d v s)" and
    3: "label_rows d v (insert_ignore_dim d v s) = [(i, v)]"
    by blast
  let ?s1 = "insert_ignore_dim d v s"
  have 4: "upsert_dim d v s = (i, ?s1)"
    using upsert_dim_get_or_create [OF assms] 1 by (cases "upsert_dim d v s") simp
  have "length (label_rows d v ?s1) \<le> 1" using 3 by simp
  from upsert_dim_get_or_create [OF this] 2
  have 5: "upsert_dim d v ?s1 = (i, ?s1)" by (cases "upsert_dim d v ?s1") simp
  from 1 2 3 4 5 show ?thesis by blast
qed

theorem get_or_create_idempotent_witness:
  "length (label_rows Sector (asc ''IT'') empty_db) \<le> 1 \<and>
   get_or_create Sector (asc ''IT'') empty_db
     = (Some 1, snd (get_or_create Sector (asc ''IT'') empty_db)) \<and>
   get_or_create Sector (asc ''IT'') (snd (get_or_create Sector (asc ''IT'') empty_db))
     = (Some 1, snd (get_or_create Sector (asc ''IT'') empty_db)) \<and>
   label_rows Sector (asc ''IT'') (snd (get_or_create Sector (asc ''IT'') empty_db))
     = [(1, asc ''IT'')]"
proof -
  have a: "length (label_rows Sector (asc ''IT'') empty_db) \<le> 1"
    by (simp add: label_rows_def empty_db_def)
  have b: "fst (get_or_create Sector (asc ''IT'') empty_db) = Some 1"
    by (simp add: get_or_create_def insert_ignore_dim_def dim_insert_def select_dim_id_def
        empty_db_def Let_def)
  show ?thesis
    using get_or_create_idempotent [OF a] a b by auto
qed

section \<open>Properties of the batch ingestion\<close>

lemma insert_ignore_dim_frame:
  "postings (insert_ignore_dim d v s) = postings s"
  "next_posting_id (insert_ignore_dim d v s) = next_posting_id s"
  "d' \<noteq> d \<Longrightarrow> dims (insert_ignore_dim d v s) d' = dims s d'"
  by (simp_all add: insert_ignore_dim_def)

lemma insert_ignore_junction_frame:
  "postings (insert_ignore_junction j pid i s) = postings s"
  "next_posting_id (insert_ignore_junction j pid i s) = next_posting_id s"
  "dims (insert_ignore_junction j pid i s) = dims s"
  by (simp_all add: insert_ignore_junction_def)

lemma update_employment_type_frame:
  "next_posting_id (update_employment_type i pid s) = next_posting_id s"
  "dims (update_employment_type i pid s) = dims s"
  by (simp_all add: update_employment_type_def)

lemma insert_ignore_posting_frame:
  "dims (insert_ignore_posting p s) = dims s"
  by (simp add: insert_ignore_posting_def)

lemma dims_insert_ignore_dim_same:
  "dims (insert_ignore_dim d v s) d = dim_insert v (dims s d)"
  by (simp add: insert_ignore_dim_def)

lemmas frame_simps = insert_ignore_dim_frame insert_ignore_junction_frame
  update_employment_type_frame insert_ignore_posting_frame dims_insert_ignore_dim_same

lemma select_dim_id_cong: "dims s d = dims s' d \<Longrightarrow> select_dim_id d v s = select_dim_id d v s'"
  supply frame_simps [simp]
  by (simp add: select_dim_id_def)

lemma ids_positive_cong: "dims s d = dims s' d \<Longrightarrow> ids_positive d s = ids_positive d s'"
  supply frame_simps [simp]
  by (simp add: ids_positive_def)

lemma ids_positive_insert_ignore_dim:
  "ids_positive d s \<Longrightarrow> ids_positive d (insert_ignore_dim d' v s)"
  supply frame_simps [simp]
  by (cases "d' = d") (auto simp: ids_positive_def insert_ignore_dim_def dim_insert_def)

lemma select_after_insert:
  assumes "ids_positive d s"
  shows "\<exists>i. select_dim_id d v (insert_ignore_dim d v s) = Some i \<and> i \<noteq> 0"
  supply frame_simps [simp]
proof -
  have pos: "ids_positive d (insert_ignore_dim d v s)"
    using assms by (rule ids_positive_insert_ignore_dim)
  have "v \<in> snd ` set (dim_rows (dims (insert_ignore_dim d v s) d))"
    by (auto simp: insert_ignore_dim_def dim_insert_def)
  then have "filter (\<lambda>r. snd r = v) (dim_rows (dims (insert_ignore_dim d v s) d)) \<noteq> []"
    by (auto simp: filter_empty_conv)
  then obtain r rs where
    f: "filter (\<lambda>r. snd r = v) (dim_rows (dims (insert_ignore_dim d v s) d)) = r # rs"
    by (cases "filter (\<lambda>r. snd r = v) (dim_rows (dims (insert_ignore_dim d v s) d))") auto
  then have "r \<in> set (dim_rows (dims (insert_ignore_dim d v s) d))"
    using set_filter [of "\<lambda>r. snd r = v" "dim_rows (dims (insert_ignore_dim d v s) d)"]
    by auto
  with pos have "fst r \<noteq> 0" by (auto simp: ids_positive_def list_all_iff)
  with f show ?thesis by (simp add: select_dim_id_def)
qed

lemma link_values_frame:
  "postings (link_values d j pid vs s) = postings s \<and>
   next_posting_id (link_values d j pid vs s) = next_posting_id s \<and>
   (d' \<noteq> d \<longrightarrow> dims (link_values d j pid vs s) d' = dims s d')"
  supply frame_simps [simp]
  by (induction vs arbitrary: s) (auto simp: Let_def split: option.splits)

lemma ids_positive_link_values:
  "ids_positive d' s \<Longrightarrow> ids_positive d' (link_values d j pid vs s)"
  supply frame_simps [simp]
proof (induction vs arbitrary: s)
  case Nil
  then show ?case by simp
next
  case (Cons v vs)
  have 1: "ids_positive d' (insert_ignore_dim d v s)"
    using Cons.prems by (rule ids_positive_insert_ignore_dim)
  have 2: "ids_positive d' (insert_ignore_junction j pid i (insert_ignore_dim d v s))" for i
    using 1 by (simp add: ids_positive_def)
  show ?case
    using 1 2 by (auto simp: Let_def intro!: Cons.IH split: option.splits)
qed

lemma link_employment_postings:
  assumes "ids_positive EmploymentType s"
  shows "postings (link_employment pid v s) =
     (if v = [] then postings s
      else map (set_employment pid (select_dim_id EmploymentType v (link_employment pid v s)))
             (postings s))"
  supply frame_simps [simp]
proof (cases "v = []")
  case True
  then show ?thesis by (simp add: link_employment_def)
next
  case False
  let ?t = "insert_ignore_dim EmploymentType v s"
  from select_after_insert [OF assms, of v] obtain i where
    i: "select_dim_id EmploymentType v ?t = Some i" "i \<noteq> 0" by blast
  have le: "link_employment pid v s =
      insert_ignore_junction JEmploymentType pid i (update_employment_type i pid ?t)"
    using False i by (simp add: link_employment_def)
  have "select_dim_id EmploymentType v (link_employment pid v s) = Some i"
    unfolding le using i(1) by (simp add: select_dim_id_def)
  then show ?thesis
    using False unfolding le
    by (simp add: update_employment_type_def set_employment_def [abs_def])
qed

lemma link_employment_frame:
  "next_posting_id (link_employment pid v s) = next_posting_id s \<and>
   (d \<noteq> EmploymentType \<longrightarrow> dims (link_employment pid v s) d = dims s d)"
  supply frame_simps [simp]
  by (auto simp: link_employment_def Let_def split: option.splits)

lemma ids_positive_link_employment:
  "ids_positive d s \<Longrightarrow> ids_positive d (link_employment pid v s)"
  supply frame_simps [simp]
proof -
  assume a: "ids_positive d s"
  have 1: "ids_positive d (insert_ignore_dim EmploymentType v s)"
    using a by (rule ids_positive_insert_ignore_dim)
  then have 2: "ids_positive d (insert_ignore_junction JEmploymentType pid i
      (update_employment_type i pid (insert_ignore_dim EmploymentType v s)))" for i
    by (simp add: ids_positive_def)
  show ?thesis using a 1 2 by (auto simp: link_employment_def Let_def split: option.splits)
qed


lemma link_associations_postings:
  assumes "ids_positive EmploymentType s"
  shows "postings (link_associations pid data secs s) =
     (if r_employment data = [] then postings s
      else map (set_employment pid
                  (select_dim_id EmploymentType (r_employment data)
                     (link_associations pid data secs s)))
             (postings s))"
  supply frame_simps [simp]
proof -
  let ?s4 = "link_values Experience JExperience pid (parseMultiValueField (r_experience data)) s"
  let ?s5 = "link_values Location JLocation pid (parseMultiValueField (r_location data)) ?s4"
  let ?s6 = "link_employment pid (r_employment data) ?s5"
  let ?s7 = "link_values Sector JSector pid secs ?s6"
  have la: "link_associations pid data secs s = ?s7"
    by (simp add: link_associations_def Let_def)
  have pos5: "ids_positive EmploymentType ?s5"
    using assms by (intro ids_positive_link_values)
  have p5: "postings ?s5 = postings s" by (simp add: link_values_frame)
  have "dims ?s7 EmploymentType = dims ?s6 EmploymentType"
    using link_values_frame [of Sector JSector pid secs ?s6 EmploymentType] by simp
  then have sel: "select_dim_id EmploymentType (r_employment data) ?s7
      = select_dim_id EmploymentType (r_employment data) ?s6"
    by (rule select_dim_id_cong)
  have "postings ?s7 = postings ?s6" by (simp add: link_values_frame)
  then show ?thesis
    unfolding la using link_employment_postings [OF pos5, of pid "r_employment data"] sel p5
    by simp
qed

lemma link_associations_frame:
  "next_posting_id (link_associations pid data secs s) = next_posting_id s \<and>
   dims (link_associations pid data secs s) Company = dims s Company"
  supply frame_simps [simp]
  by (simp add: link_associations_def Let_def link_values_frame link_employment_frame)

lemma ids_positive_link_associations:
  "ids_positive d s \<Longrightarrow> ids_positive d (link_associations pid data secs s)"
  supply frame_simps [simp]
  by (simp add: link_associations_def Let_def ids_positive_link_values
      ids_positive_link_employment)

lemma ids_positive_insert_record:
  assumes "ids_positive d s"
  shows "ids_positive d (snd (insert_record sha256 data s))"
  supply frame_simps [simp]
proof -
  let ?s1 = "insert_ignore_dim Company (r_company data) s"
  let ?s2 = "if r_education data \<noteq> [] then insert_ignore_dim Education (r_education data) ?s1
             else ?s1"
  have 1: "ids_positive d ?s1" using assms by (rule ids_positive_insert_ignore_dim)
  have 2: "ids_positive d ?s2" using 1 by (simp add: ids_positive_insert_ignore_dim)
  have 3: "ids_positive d (insert_ignore_posting p ?s2)" for p
    using 2 by (simp add: ids_positive_def)
  have 4: "ids_positive d (link_associations pid data secs (insert_ignore_posting p ?s2))"
    for p pid secs
    using 3 by (rule ids_positive_link_associations)
  show ?thesis
    using 1 3 4 by (auto simp: insert_record_def Let_def split: option.splits)
qed

lemma filter_hash_set_employment:
  "filter (\<lambda>p. link_hash p = h) (map (set_employment pid e) ps)
     = map (set_employment pid e) (filter (\<lambda>p. link_hash p = h) ps)"
  supply frame_simps [simp]
  by (induction ps) (auto simp: set_employment_def)

lemma insert_record_present:
  assumes pc: "ids_positive Company s" and pe: "ids_positive EmploymentType s"
    and one: "filter (\<lambda>p. link_hash p = sha256 (r_link data)) (postings s) = [p]"
    and id: "job_posting_id p \<noteq> 0"
  shows "filter (\<lambda>p. link_hash p = sha256 (r_link data)) (postings (snd (insert_record sha256 data s)))
           = [record_employment sha256 data s p] \<and>
         length (postings (snd (insert_record sha256 data s))) = length (postings s) \<and>
         fst (insert_record sha256 data s) = None"
  supply frame_simps [simp]
proof -
  let ?h = "sha256 (r_link data)"
  let ?s1 = "insert_ignore_dim Company (r_company data) s"
  let ?s2 = "if r_education data \<noteq> [] then insert_ignore_dim Education (r_education data) ?s1
             else ?s1"
  from select_after_insert [OF pc, of "r_company data"] obtain c where
    c: "select_dim_id Company (r_company data) ?s1 = Some c" "c \<noteq> 0" by blast
  let ?e = "case select_dim_id Education (r_education data) ?s2 of
              Some i \<Rightarrow> if i = 0 then None else Some i | None \<Rightarrow> None"
  let ?s3 = "insert_ignore_posting (new_posting sha256 data c ?e) ?s2"
  have p2: "postings ?s2 = postings s" by simp
  have mem: "?h \<in> link_hash ` set (postings s)"
  proof -
    have "p \<in> set (filter (\<lambda>p. link_hash p = ?h) (postings s))" using one by simp
    then have "p \<in> set (postings s)" "link_hash p = ?h" by simp_all
    then show ?thesis by (metis imageI)
  qed
  have s3: "?s3 = ?s2"
    using mem p2 by (simp add: insert_ignore_posting_def new_posting_def)
  have sel: "select_posting_id ?h ?s3 = Some (job_posting_id p)"
    unfolding s3 using one p2 by (simp add: select_posting_id_def)
  let ?s7 = "link_associations (job_posting_id p) data
               (sectorsArray (parseSectorsAndModifiedDate (r_sectors data))) ?s2"
  have ir: "insert_record sha256 data s = (None, ?s7)"
    using c sel id s3 by (simp add: insert_record_def Let_def)
  have pe2: "ids_positive EmploymentType ?s2"
    using pe by (simp add: ids_positive_insert_ignore_dim)
  note lp = link_associations_postings [OF pe2, of "job_posting_id p" data
      "sectorsArray (parseSectorsAndModifiedDate (r_sectors data))"]
  have f: "filter (\<lambda>p. link_hash p = ?h) (postings ?s7) = [record_employment sha256 data s p]"
  proof (cases "r_employment data = []")
    case True
    then show ?thesis using lp one p2 by (simp add: record_employment_def)
  next
    case False
    then show ?thesis
      using lp one p2
      by (simp add: filter_hash_set_employment record_employment_def ir set_employment_def)
  qed
  have l: "length (postings ?s7) = length (postings s)"
    using lp p2 by (simp split: if_splits)
  from f l ir show ?thesis by simp
qed

lemma insert_record_fresh:
  assumes pc: "ids_positive Company s" and pe: "ids_positive EmploymentType s"
    and np: "next_posting_id s \<noteq> 0"
    and fresh: "sha256 (r_link data) \<notin> link_hash ` set (postings s)"
  shows "\<exists>c e. filter (\<lambda>p. link_hash p = sha256 (r_link data))
                 (postings (snd (insert_record sha256 data s)))
           = [record_employment sha256 data s
                ((new_posting sha256 data c e)\<lparr>job_posting_id := next_posting_id s\<rparr>)] \<and>
         select_dim_id Company (r_company data) (snd (insert_record sha256 data s)) = Some c \<and>
         length (postings (snd (insert_record sha256 data s))) = Suc (length (postings s)) \<and>
         fst (insert_record sha256 data s) = None"
  supply frame_simps [simp]
proof -
  let ?h = "sha256 (r_link data)"
  let ?s1 = "insert_ignore_dim Company (r_company data) s"
  let ?s2 = "if r_education data \<noteq> [] then insert_ignore_dim Education (r_education data) ?s1
             else ?s1"
  from select_after_insert [OF pc, of "r_company data"] obtain c where
    c: "select_dim_id Company (r_company data) ?s1 = Some c" "c \<noteq> 0" by blast
  let ?e = "case select_dim_id Education (r_education data) ?s2 of
              Some i \<Rightarrow> if i = 0 then None else Some i | None \<Rightarrow> None"
  let ?n = "(new_posting sha256 data c ?e)\<lparr>job_posting_id := next_posting_id s\<rparr>"
  let ?s3 = "insert_ignore_posting (new_posting sha256 data c ?e) ?s2"
  have p2: "postings ?s2 = postings s" "next_posting_id ?s2 = next_posting_id s" by simp_all
  have hn: "link_hash (new_posting sha256 data c ?e) = ?h" by (simp add: new_posting_def)
  have p3: "postings ?s3 = postings s @ [?n]"
    using fresh p2 hn by (simp add: insert_ignore_posting_def)
  have none: "filter (\<lambda>p. link_hash p = ?h) (postings s) = []"
    unfolding filter_empty_conv using fresh by (metis imageI)
  have f3: "filter (\<lambda>p. link_hash p = ?h) (postings ?s3) = [?n]"
    unfolding p3 using none hn by simp
  have sel: "select_posting_id ?h ?s3 = Some (next_posting_id s)"
    using f3 by (simp add: select_posting_id_def)
  let ?s7 = "link_associations (next_posting_id s) data
               (sectorsArray (parseSectorsAndModifiedDate (r_sectors data))) ?s3"
  have ir: "insert_record sha256 data s = (None, ?s7)"
    using c sel np by (simp add: insert_record_def Let_def)
  have "ids_positive EmploymentType ?s2"
    using pe by (simp add: ids_positive_insert_ignore_dim)
  then have pe3: "ids_positive EmploymentType ?s3" by (simp add: ids_positive_def)
  note lp = link_associations_postings [OF pe3, of "next_posting_id s" data
      "sectorsArray (parseSectorsAndModifiedDate (r_sectors data))"]
  have f: "filter (\<lambda>p. link_hash p = ?h) (postings ?s7) = [record_employment sha256 data s ?n]"
  proof (cases "r_employment data = []")
    case True
    then show ?thesis using lp f3 by (simp add: record_employment_def)
  next
    case False
    then show ?thesis
      using lp f3
      by (simp add: filter_hash_set_employment record_employment_def ir set_employment_def)
  qed
  have l: "length (postings ?s7) = Suc (length (postings s))"
    using lp p3 by (simp split: if_splits)
  have d7: "dims ?s7 Company = dims ?s1 Company"
    by (simp add: link_associations_frame)
  have c7: "select_dim_id Company (r_company data) ?s7 = Some c"
    using select_dim_id_cong [OF d7, of "r_company data"] c(1) by simp
  have "filter (\<lambda>p. link_hash p = ?h) (postings (snd (insert_record sha256 data s)))
           = [record_employment sha256 data s ?n] \<and>
         select_dim_id Company (r_company data) (snd (insert_record sha256 data s)) = Some c \<and>
         length (postings (snd (insert_record sha256 data s))) = Suc (length (postings s)) \<and>
         fst (insert_record sha256 data s) = None"
    unfolding ir fst_conv snd_conv using f l c7 by (intro conjI) (rule refl | assumption)+
  then show ?thesis by blast
qed


text \<open>
  C2, as the code has it. In a store whose ids start at 1 and that has no posting
  with the hash of the link, ingesting a record and then a second one with the same
  link leaves exactly one posting row with that hash, and the number of rows is the
  same as after the first record alone. Title, link, salary, deadline, last-modified
  date and company of the row are those of the first record. The second record
  changes one field of the row: when its employment type is not empty, the row's
  reference to the employment type is set to the id of that type.
\<close>

theorem insertData_same_link:
  assumes pc: "ids_positive Company s" and pe: "ids_positive EmploymentType s"
    and np: "next_posting_id s \<noteq> 0"
    and fresh: "sha256 (r_link r1) \<notin> link_hash ` set (postings s)"
    and same: "r_link r2 = r_link r1"
  shows "\<exists>p1 p2.
     filter (\<lambda>p. link_hash p = sha256 (r_link r1)) (postings (insertData sha256 [r1] s)) = [p1] \<and>
     filter (\<lambda>p. link_hash p = sha256 (r_link r1)) (postings (insertData sha256 [r1, r2] s)) = [p2] \<and>
     length (postings (insertData sha256 [r1] s)) = Suc (length (postings s)) \<and>
     length (postings (insertData sha256 [r1, r2] s)) = Suc (length (postings s)) \<and>
     title p1 = r_title r1 \<and> link p1 = r_link r1 \<and> salary p1 = r_salary r1 \<and>
     deadline p1 = r_deadline r1 \<and>
     last_modified_date p1 = lastModifiedDate (parseSectorsAndModifiedDate (r_sectors r1)) \<and>
     Some (company_id p1) = select_dim_id Company (r_company r1) (insertData sha256 [r1] s) \<and>
     p2 = p1\<lparr>employment_type_id :=
               (if r_employment r2 = [] then employment_type_id p1
                else select_dim_id EmploymentType (r_employment r2)
                       (insertData sha256 [r1, r2] s))\<rparr>"
  supply frame_simps [simp]
proof -
  let ?h = "sha256 (r_link r1)"
  let ?sA = "snd (insert_record sha256 r1 s)"
  let ?sB = "snd (insert_record sha256 r2 ?sA)"
  from insert_record_fresh [of s sha256 r1, OF pc pe np fresh]
  obtain c e where
    fA: "filter (\<lambda>p. link_hash p = ?h) (postings ?sA)
           = [record_employment sha256 r1 s
                ((new_posting sha256 r1 c e)\<lparr>job_posting_id := next_posting_id s\<rparr>)]"
    and cA: "select_dim_id Company (r_company r1) ?sA = Some c"
    and lA: "length (postings ?sA) = Suc (length (postings s))"
    by blast
  let ?p1 = "record_employment sha256 r1 s
                ((new_posting sha256 r1 c e)\<lparr>job_posting_id := next_posting_id s\<rparr>)"
  have id1: "job_posting_id ?p1 \<noteq> 0"
    using np by (simp add: record_employment_def)
  have pcA: "ids_positive Company ?sA" using pc by (rule ids_positive_insert_record)
  have peA: "ids_positive EmploymentType ?sA" using pe by (rule ids_positive_insert_record)
  have fA': "filter (\<lambda>p. link_hash p = sha256 (r_link r2)) (postings ?sA) = [?p1]"
    using fA same by simp
  from insert_record_present [of ?sA sha256 r2 ?p1, OF pcA peA fA' id1]
  have fB: "filter (\<lambda>p. link_hash p = ?h) (postings ?sB) = [record_employment sha256 r2 ?sA ?p1]"
    and lB: "length (postings ?sB) = length (postings ?sA)"
    using same by simp_all
  have fields: "title ?p1 = r_title r1 \<and> link ?p1 = r_link r1 \<and> salary ?p1 = r_salary r1 \<and>
     deadline ?p1 = r_deadline r1 \<and>
     last_modified_date ?p1 = lastModifiedDate (parseSectorsAndModifiedDate (r_sectors r1)) \<and>
     company_id ?p1 = c"
    by (simp add: record_employment_def new_posting_def)
  have p2: "record_employment sha256 r2 ?sA ?p1 = ?p1\<lparr>employment_type_id :=
               (if r_employment r2 = [] then employment_type_id ?p1
                else select_dim_id EmploymentType (r_employment r2) ?sB)\<rparr>"
    by (simp add: record_employment_def [of sha256 r2])
  have iA: "insertData sha256 [r1] s = ?sA" and iB: "insertData sha256 [r1, r2] s = ?sB"
    by simp_all
  show ?thesis
    unfolding iA iB using fA fB lA lB fields cA p2 by (intro exI [of _ ?p1] exI) simp
qed

lemma link_employment_table:
  "dims (link_employment pid v s) EmploymentType
     = (if v = [] then dims s EmploymentType else dim_insert v (dims s EmploymentType))"
  supply frame_simps [simp]
  by (auto simp: link_employment_def Let_def split: option.splits)

lemma link_associations_table:
  "dims (link_associations pid data secs s) EmploymentType
     = (if r_employment data = [] then dims s EmploymentType
        else dim_insert (r_employment data) (dims s EmploymentType))"
  supply frame_simps [simp]
proof -
  let ?s4 = "link_values Experience JExperience pid (parseMultiValueField (r_experience data)) s"
  let ?s5 = "link_values Location JLocation pid (parseMultiValueField (r_location data)) ?s4"
  let ?s6 = "link_employment pid (r_employment data) ?s5"
  have 5: "dims ?s5 EmploymentType = dims s EmploymentType"
    by (simp add: link_values_frame)
  have "dims (link_values Sector JSector pid secs ?s6) EmploymentType = dims ?s6 EmploymentType"
    by (simp add: link_values_frame)
  then show ?thesis
    by (simp add: link_associations_def Let_def link_employment_table 5)
qed

lemma insert_record_table:
  assumes "fst (insert_record sha256 data s) = None"
  shows "dims (snd (insert_record sha256 data s)) EmploymentType
     = (if r_employment data = [] then dims s EmploymentType
        else dim_insert (r_employment data) (dims s EmploymentType))"
  supply frame_simps [simp]
  using assms
  by (auto simp: insert_record_def Let_def link_associations_table split: option.splits if_splits)

lemma filter_single_all: "filter P xs = [p] \<Longrightarrow> length xs = Suc 0 \<Longrightarrow> xs = [p]"
  supply frame_simps [simp]
  by (cases xs) (auto split: if_splits)

lemma empty_db_ids: "ids_positive d empty_db" "next_posting_id empty_db \<noteq> 0"
  "postings empty_db = []"
  supply frame_simps [simp]
  by (simp_all add: ids_positive_def empty_db_def)

text \<open>
  C2 as stated fails: with any digest function, a second record with the same link
  and another employment type changes the posting row of the first; its reference to
  the employment type goes from the first type to the second.
\<close>

theorem second_record_changes_employment:
  "\<forall>sha256.
     map employment_type_id (postings (insertData sha256 [record_a] empty_db)) = [Some 1] \<and>
     map employment_type_id (postings (insertData sha256 [record_a, record_b] empty_db)) = [Some 2]"
  supply frame_simps [simp]
proof
  fix sha256 :: "ustring \<Rightarrow> ustring"
  let ?sA = "snd (insert_record sha256 record_a empty_db)"
  let ?sB = "snd (insert_record sha256 record_b ?sA)"
  have ea: "r_employment record_a = asc ''regular''" and eb: "r_employment record_b = asc ''contract''"
    and lk: "r_link record_b = r_link record_a"
    by (simp_all add: record_a_def record_b_def)
  have fresh: "sha256 (r_link record_a) \<notin> link_hash ` set (postings empty_db)"
    by (simp add: empty_db_ids)
  from insert_record_fresh [of empty_db sha256 record_a, OF empty_db_ids(1) empty_db_ids(1)
      empty_db_ids(2) fresh]
  obtain c e where
    fA: "filter (\<lambda>p. link_hash p = sha256 (r_link record_a)) (postings ?sA)
           = [record_employment sha256 record_a empty_db
                ((new_posting sha256 record_a c e)\<lparr>job_posting_id := next_posting_id empty_db\<rparr>)]"
    and lA: "length (postings ?sA) = Suc 0"
    and okA: "fst (insert_record sha256 record_a empty_db) = None"
    by (auto simp: empty_db_ids)
  let ?p1 = "record_employment sha256 record_a empty_db
                ((new_posting sha256 record_a c e)\<lparr>job_posting_id := next_posting_id empty_db\<rparr>)"
  have pA: "postings ?sA = [?p1]" using fA lA by (rule filter_single_all)
  have tA: "dims ?sA EmploymentType = \<lparr>dim_rows = [(1, asc ''regular'')], dim_next = 2\<rparr>"
    using insert_record_table [OF okA]
    by (simp add: ea asc_def dim_insert_def empty_db_def)
  have selA: "select_dim_id EmploymentType (asc ''regular'') ?sA = Some 1"
    by (simp add: select_dim_id_def tA)
  have 1: "map employment_type_id (postings ?sA) = [Some 1]"
    unfolding pA using selA by (simp add: record_employment_def ea asc_def)
  have id1: "job_posting_id ?p1 \<noteq> 0"
    by (simp add: record_employment_def empty_db_def)
  have fA': "filter (\<lambda>p. link_hash p = sha256 (r_link record_b)) (postings ?sA) = [?p1]"
    using fA lk by simp
  from insert_record_present [of ?sA sha256 record_b ?p1,
      OF ids_positive_insert_record [OF empty_db_ids(1)]
         ids_positive_insert_record [OF empty_db_ids(1)] fA' id1]
  have fB: "filter (\<lambda>p. link_hash p = sha256 (r_link record_b)) (postings ?sB)
           = [record_employment sha256 record_b ?sA ?p1]"
    and lB: "length (postings ?sB) = Suc 0"
    and okB: "fst (insert_record sha256 record_b ?sA) = None"
    using lA by simp_all
  have pB: "postings ?sB = [record_employment sha256 record_b ?sA ?p1]"
    using fB lB by (rule filter_single_all)
  have tB: "dims ?sB EmploymentType
      = \<lparr>dim_rows = [(1, asc ''regular''), (2, asc ''contract'')], dim_next = 3\<rparr>"
    using insert_record_table [OF okB]
    by (simp add: eb tA asc_def dim_insert_def)
  have selB: "select_dim_id EmploymentType (asc ''contract'') ?sB = Some 2"
    by (simp add: select_dim_id_def tB asc_def)
  have 2: "map employment_type_id (postings ?sB) = [Some 2]"
    unfolding pB using selB by (simp add: record_employment_def [of sha256 record_b] eb asc_def)
  show "map employment_type_id (postings (insertData sha256 [record_a] empty_db)) = [Some 1] \<and>
     map employment_type_id (postings (insertData sha256 [record_a, record_b] empty_db)) = [Some 2]"
    using 1 2 by simp
qed

theorem insertData_same_link_witness:
  "\<forall>sha256. \<exists>p.
     filter (\<lambda>p. link_hash p = sha256 (r_link record_a))
        (postings (insertData sha256 [record_a, record_b] empty_db)) = [p] \<and>
     title p = asc ''Developer'' \<and> salary p = asc ''3,000'' \<and>
     length (postings (insertData sha256 [record_a, record_b] empty_db)) = 1"
  supply frame_simps [simp]
proof
  fix sha256 :: "ustring \<Rightarrow> ustring"
  have fresh: "sha256 (r_link record_a) \<notin> link_hash ` set (postings empty_db)"
    by (simp add: empty_db_ids)
  have lk: "r_link record_b = r_link record_a" by (simp add: record_a_def record_b_def)
  have f: "r_title record_a = asc ''Developer''" "r_salary record_a = asc ''3,000''"
    by (simp_all add: record_a_def)
  from insertData_same_link [of empty_db sha256 record_a record_b,
      OF empty_db_ids(1) empty_db_ids(1) empty_db_ids(2) fresh lk]
  obtain p1 p2 where
    a: "filter (\<lambda>p. link_hash p = sha256 (r_link record_a))
          (postings (insertData sha256 [record_a, record_b] empty_db)) = [p2]"
    and b: "length (postings (insertData sha256 [record_a, record_b] empty_db))
          = Suc (length (postings empty_db))"
    and c: "title p1 = r_title record_a" "salary p1 = r_salary record_a"
    and d: "p2 = p1\<lparr>employment_type_id :=
               (if r_employment record_b = [] then employment_type_id p1
                else select_dim_id EmploymentType (r_employment record_b)
                       (insertData sha256 [record_a, record_b] empty_db))\<rparr>"
    by blast
  from d c f have "title p2 = asc ''Developer''" "salary p2 = asc ''3,000''" by simp_all
  with a b show "\<exists>p. filter (\<lambda>p. link_hash p = sha256 (r_link record_a))
        (postings (insertData sha256 [record_a, record_b] empty_db)) = [p] \<and>
     title p = asc ''Developer'' \<and> salary p = asc ''3,000'' \<and>
     length (postings (insertData sha256 [record_a, record_b] empty_db)) = 1"
    by (simp add: empty_db_ids)
qed

section \<open>Properties of update and delete\<close>

lemma put_posting_kinds:
  "fst (put_posting exec pid userId body s) = Failure 400 MsgNoFieldsToUpdate \<or>
   fst (put_posting exec pid userId body s) = Failure 500 MsgUpdateFailed \<or>
   (\<exists>d. fst (put_posting exec pid userId body s) = Success 200 MsgUpdated d)"
  by (cases "exec (update_queries pid userId body) s"; cases "fst (exec (update_queries pid userId body) s)")
    (auto simp: put_posting_def)

lemma delete_posting_not_owner:
  assumes "filter (\<lambda>p. job_posting_id p = pid) (postings s) = job # rest"
    and "user_id job \<noteq> Some userId"
  shows "delete_posting (Num pid) userId s = (Failure 403 MsgNotAllowedToDelete, s)"
  using assms by (simp add: delete_posting_def)

lemma delete_posting_mutates_only_for_owner:
  "snd (delete_posting rid userId s) \<noteq> s \<Longrightarrow>
     \<exists>pid job rest. rid = Num pid \<and>
        filter (\<lambda>p. job_posting_id p = pid) (postings s) = job # rest \<and> user_id job = Some userId"
  by (auto simp: delete_posting_def split: path_id.splits list.splits if_splits)

text \<open>
  The row read back is the row of nulls when the posting has no education: the join on
  the educations is an inner join.
\<close>

lemma read_back_without_education:
  "find (\<lambda>p. job_posting_id p = pid) (postings s) = Some p \<Longrightarrow> education_id p = None \<Longrightarrow>
     read_back pid s = null_job"
  by (simp add: read_back_def split: option.splits)

text \<open>
  C1 fails for the update. Whatever \<open>executeTransaction\<close> does, the update handler
  never answers 403: its answers are 400 (no field), 500 (the transaction threw) and
  200. With the sequential transaction, user 4 changes the title of the posting of
  user 3 and is answered 200 with the changed row read back, while the delete handler
  answers the same user 403 and leaves the store as it is.
\<close>

theorem put_posting_ignores_owner:
  "(\<forall>exec pid userId body s.
      failure_kind (fst (put_posting exec pid userId body s)) \<noteq> Some Forbidden) \<and>
   map user_id (postings owned_db) = [Some 3] \<and>
   (\<forall>now. put_posting (executeTransaction now) 5 4 (title_body (asc ''Taken'')) owned_db
      = (Success 200 MsgUpdated
           \<lparr>uj_title = Some (asc ''Taken''), uj_company_name = Some (asc ''Acme''),
            uj_salary = Some (asc ''3,000''), uj_deadline = Some (asc ''2025-01-31''),
            uj_education_level = Some (asc ''Bachelor''), uj_locations = {}, uj_sectors = {},
            uj_employment_type_name = None, uj_last_modified_date = Some now\<rparr>,
         owned_db\<lparr>postings :=
           [owned_posting\<lparr>title := asc ''Taken'', last_modified_date := Some now\<rparr>]\<rparr>)) \<and>
   delete_posting (Num 5) 4 owned_db = (Failure 403 MsgNotAllowedToDelete, owned_db)"
proof -
  have 1: "failure_kind (fst (put_posting exec pid userId body s)) \<noteq> Some Forbidden"
    for exec pid userId body s
    using put_posting_kinds [of exec pid userId body s]
    by (auto simp: kind_of_status_def)
  have 2: "map user_id (postings owned_db) = [Some 3]"
    by (simp add: owned_db_def owned_posting_def)
  have q: "update_queries 5 4 (title_body (asc ''Taken''))
      = [SelectPostingById 5, SelectPostingByIdAndUser 5 4, SetTitle (asc ''Taken'') 5,
         TouchLastModified 5]"
    by (simp add: update_queries_def title_body_def field_stmts_def names_stmts_def asc_def)
  have 3: "put_posting (executeTransaction now) 5 4 (title_body (asc ''Taken'')) owned_db
      = (Success 200 MsgUpdated
           \<lparr>uj_title = Some (asc ''Taken''), uj_company_name = Some (asc ''Acme''),
            uj_salary = Some (asc ''3,000''), uj_deadline = Some (asc ''2025-01-31''),
            uj_education_level = Some (asc ''Bachelor''), uj_locations = {}, uj_sectors = {},
            uj_employment_type_name = None, uj_last_modified_date = Some now\<rparr>,
         owned_db\<lparr>postings :=
           [owned_posting\<lparr>title := asc ''Taken'', last_modified_date := Some now\<rparr>]\<rparr>)" for now
  proof -
    have r: "run_stmts now (update_queries 5 4 (title_body (asc ''Taken''))) (owned_db, 0)
        = Some (owned_db\<lparr>postings :=
           [owned_posting\<lparr>title := asc ''Taken'', last_modified_date := Some now\<rparr>]\<rparr>, 0)"
      unfolding q by (simp add: map_posting_def owned_db_def owned_posting_def)
    have t: "truthy (b_title (title_body (asc ''Taken'')))"
      by (simp add: truthy_def title_body_def asc_def)
    have b: "read_back 5 (owned_db\<lparr>postings :=
           [owned_posting\<lparr>title := asc ''Taken'', last_modified_date := Some now\<rparr>]\<rparr>)
        = \<lparr>uj_title = Some (asc ''Taken''), uj_company_name = Some (asc ''Acme''),
            uj_salary = Some (asc ''3,000''), uj_deadline = Some (asc ''2025-01-31''),
            uj_education_level = Some (asc ''Bachelor''), uj_locations = {}, uj_sectors = {},
            uj_employment_type_name = None, uj_last_modified_date = Some now\<rparr>"
      by (simp add: read_back_def linked_names_def dim_name_def owned_db_def owned_posting_def
          empty_db_def)
    show ?thesis
      using t by (simp add: put_posting_def executeTransaction_def r b)
  qed
  have 4: "delete_posting (Num 5) 4 owned_db = (Failure 403 MsgNotAllowedToDelete, owned_db)"
    by (rule delete_posting_not_owner [of 5 owned_db owned_posting "[]"])
      (simp_all add: owned_db_def owned_posting_def)
  from 1 2 3 4 show ?thesis by blast
qed

section \<open>Properties of the popularity recommendation\<close>

lemma length_page_slice: "length (page_slice page xs) \<le> 20"
  by (simp add: page_slice_def PAGE_SIZE_def)

lemma ceil_div_small: "0 < n \<Longrightarrow> n \<le> 20 \<Longrightarrow> ceil_div n 20 = 1"
  by (simp add: ceil_div_def)

lemma popular_cases:
  "popular rnd q s =
     (let rows = page_slice (query_page q)
                   (popular_order rnd (filter (popular_qualifies s) (postings s)))
      in if query_page q < 1 then Failure 400 MsgInvalidPage
         else if rows = [] then Failure 404 MsgNoPostingsLoaded
         else if 1 < query_page q then Failure 400 MsgInvalidPage
         else Success 200 MsgListOk
                \<lparr>page_rows = rows,
                 page_info = \<lparr>currentPage = query_page q, totalPages = 1, pageSize = 20,
                              totalItems = length rows\<rparr>\<rparr>)"
proof -
  let ?rows = "page_slice (query_page q)
                   (popular_order rnd (filter (popular_qualifies s) (postings s)))"
  have c: "ceil_div (length ?rows) 20 = 1" if "?rows \<noteq> []"
  proof (rule ceil_div_small)
    from that show "0 < length ?rows" by simp
    show "length ?rows \<le> 20" by (rule length_page_slice)
  qed
  show ?thesis
  proof (cases "?rows = []")
    case True
    then show ?thesis by (simp add: popular_def Let_def)
  next
    case False
    with c [OF False] show ?thesis
      by (auto simp: popular_def Let_def make_pagination_def PAGE_SIZE_def)
  qed
qed

lemma length_popular_order: "length (popular_order rnd ps) = length ps"
  by (simp add: popular_order_def)

lemma viewed_db_qualifies:
  "filter (popular_qualifies (viewed_db n)) (postings (viewed_db n)) = postings (viewed_db n)"
  by (simp add: viewed_db_def popular_qualifies_def viewed_posting_def dim_name_def)

lemma query_page_two: "query_page (Some (asc ''2'')) = 2"
  by (simp add: query_page_def js_parseInt_def asc_def is_js_space_def is_digit_def digits_val_def)

text \<open>
  C8 fails in its pagination. The handler takes the length of the page it has read
  for the total, so the page count it computes is 1: a page from 2 on is never
  served (it is answered 400, or 404 when it is empty), and a served page reports as
  total the number of its own rows, at most 20, whatever the number of postings that
  qualify.
\<close>

theorem popular_only_first_page:
  "(2 \<le> query_page q \<longrightarrow>
      popular rnd q s = Failure 400 MsgInvalidPage \<or>
      popular rnd q s = Failure 404 MsgNoPostingsLoaded) \<and>
   (\<forall>c m d. popular rnd q s = Success c m d \<longrightarrow>
      query_page q = 1 \<and> totalPages (page_info d) = 1 \<and>
      totalItems (page_info d) = length (page_rows d) \<and> length (page_rows d) \<le> 20 \<and>
      page_rows d = take 20 (popular_order rnd (filter (popular_qualifies s) (postings s))))"
proof -
  have 1: "2 \<le> query_page q \<longrightarrow>
      popular rnd q s = Failure 400 MsgInvalidPage \<or>
      popular rnd q s = Failure 404 MsgNoPostingsLoaded"
    by (simp add: popular_cases Let_def)
  have 2: "\<forall>c m d. popular rnd q s = Success c m d \<longrightarrow>
      query_page q = 1 \<and> totalPages (page_info d) = 1 \<and>
      totalItems (page_info d) = length (page_rows d) \<and> length (page_rows d) \<le> 20 \<and>
      page_rows d = take 20 (popular_order rnd (filter (popular_qualifies s) (postings s)))"
  proof (intro allI impI)
    fix c m d assume a: "popular rnd q s = Success c m d"
    then have p: "query_page q = 1"
      by (auto simp: popular_cases Let_def split: if_splits)
    from a show "query_page q = 1 \<and> totalPages (page_info d) = 1 \<and>
      totalItems (page_info d) = length (page_rows d) \<and> length (page_rows d) \<le> 20 \<and>
      page_rows d = take 20 (popular_order rnd (filter (popular_qualifies s) (postings s)))"
      using length_page_slice [of 1 "popular_order rnd (filter (popular_qualifies s) (postings s))"]
      by (auto simp: popular_cases Let_def p page_slice_def PAGE_SIZE_def split: if_splits)
  qed
  from 1 2 show ?thesis by blast
qed

theorem popular_only_first_page_witness:
  "\<forall>rnd. length (filter (popular_qualifies (viewed_db 21)) (postings (viewed_db 21))) = 21 \<and>
     ceil_div 21 PAGE_SIZE = 2 \<and> query_page (Some (asc ''2'')) = 2 \<and>
     popular rnd (Some (asc ''2'')) (viewed_db 21) = Failure 400 MsgInvalidPage"
proof
  fix rnd :: "nat \<Rightarrow> nat"
  have n: "length (postings (viewed_db 21)) = 21" by (simp add: viewed_db_def)
  have l: "length (filter (popular_qualifies (viewed_db 21)) (postings (viewed_db 21))) = 21"
    by (simp add: viewed_db_qualifies n)
  have "length (page_slice 2 (popular_order rnd
          (filter (popular_qualifies (viewed_db 21)) (postings (viewed_db 21))))) = 1"
    by (simp add: page_slice_def PAGE_SIZE_def length_popular_order l)
  then have "page_slice 2 (popular_order rnd
          (filter (popular_qualifies (viewed_db 21)) (postings (viewed_db 21)))) \<noteq> []"
    by auto
  then have ne: "popular rnd (Some (asc ''2'')) (viewed_db 21) \<noteq> Failure 404 MsgNoPostingsLoaded"
    by (simp add: popular_cases Let_def query_page_two)
  have c: "ceil_div 21 PAGE_SIZE = 2" by (simp add: ceil_div_def PAGE_SIZE_def)
  show "length (filter (popular_qualifies (viewed_db 21)) (postings (viewed_db 21))) = 21 \<and>
     ceil_div 21 PAGE_SIZE = 2 \<and> query_page (Some (asc ''2'')) = 2 \<and>
     popular rnd (Some (asc ''2'')) (viewed_db 21) = Failure 400 MsgInvalidPage"
    using popular_only_first_page [of "Some (asc ''2'')" rnd "viewed_db 21"] ne l c query_page_two
    by simp
qed

section \<open>Properties of the salary recommendation\<close>





















end
